theory Spec2Isabelle
  imports Complex_Main
begin

section \<open>Values shared by the store and the tools\<close>

text \<open>
  Python exceptions are values. Only the exceptions that the modelled code paths can raise
  are listed. \<open>str_exn\<close> is Python's \<open>str(e)\<close>; the text that pydantic and the
  database driver produce for their own exceptions is abbreviated.
\<close>

datatype exn =
    NameError string
  | HTTPException nat string
  | ValidationError string "string list"
  | IntegrityError string
  | TypeError string
  | ValueError string

text \<open>Decimal rendering of a count or a status code.\<close>

definition digit_char :: "nat \<Rightarrow> char" where
  "digit_char d = char_of (48 + d)"

function str_nat :: "nat \<Rightarrow> string" where
  "str_nat n = (if n < 10 then [digit_char n] else str_nat (n div 10) @ [digit_char (n mod 10)])"
  by pat_completeness auto
termination
  by (relation "measure id") auto

definition quote :: "string \<Rightarrow> string" where
  "quote s = CHR 0x27 # s @ [CHR 0x27]"

fun str_exn :: "exn \<Rightarrow> string" where
  "str_exn (NameError n) = ''name '' @ quote n @ '' is not defined''"
| "str_exn (HTTPException code detail) = str_nat code @ '': '' @ detail"
| "str_exn (ValidationError model fields) =
     ''validation error for '' @ model @ '': '' @ concat (map (\<lambda>f. f @ '' '') fields)"
| "str_exn (IntegrityError m) = m"
| "str_exn (TypeError m) = m"
| "str_exn (ValueError m) = m"

text \<open>
  A Python \<open>datetime\<close>: the wall-clock reading in microseconds since
  0001-01-01T00:00:00 and the UTC offset in microseconds, which is \<open>None\<close> for a naive
  value. Ordering two values raises \<open>TypeError\<close> when exactly one of them is naive.
  \<open>year_1000\<close> is the reading of 1000-01-01T00:00:00, 364877 days after the origin.
\<close>

record datetime =
  wall :: int
  utcoffset :: "int option"

definition year_1000 :: int where
  "year_1000 = 364877 * 86400 * 1000000"

definition dt_gt :: "datetime \<Rightarrow> datetime \<Rightarrow> exn + bool" where
  "dt_gt a b =
     (case (utcoffset a, utcoffset b) of
        (None, None) \<Rightarrow> Inr (wall a > wall b)
      | (Some oa, Some ob) \<Rightarrow> Inr (wall a - oa > wall b - ob)
      | _ \<Rightarrow> Inl (TypeError ''can't compare offset-naive and offset-aware datetimes''))"

text \<open>Amounts are Python floats; they are modelled by real numbers.\<close>

type_synonym amount = real

section \<open>The expense table (models/expense.py) and the database\<close>

record expense =
  e_id :: int
  e_amount :: amount
  e_description :: string
  e_category :: string
  e_date :: datetime
  e_user_id :: int

text \<open>
  The engine of \<open>app.config.database\<close> is not part of the sources, so what depends on the
  SQL dialect is a field of the database: whether \<open>LIKE\<close> takes the backslash as its
  escape character by default (PostgreSQL and MySQL do, standard SQL and SQLite do not)
  and whether foreign keys are enforced. The table keeps its rows in storage order.
\<close>

record database =
  expenses :: "expense list"
  users :: "int list"
  next_id :: int
  backslash_escape :: bool
  enforce_fk :: bool

definition like_escape :: "database \<Rightarrow> char option" where
  "like_escape db = (if backslash_escape db then Some (CHR 0x5C) else None)"

subsection \<open>SQL pattern matching\<close>

text \<open>
  \<open>like esc p s\<close>: the text \<open>s\<close> matches the pattern \<open>p\<close>; \<open>%\<close> stands for any
  sequence of characters, \<open>_\<close> for one character, and the escape character makes the
  next pattern character literal. A pattern that ends in the escape character matches
  nothing here (dialects differ on it). \<open>ilike\<close> compares after folding ASCII letters.
\<close>

fun like :: "char option \<Rightarrow> string \<Rightarrow> string \<Rightarrow> bool" where
  "like esc [] s = (s = [])"
| "like esc (p # ps) s =
     (if Some p = esc then
        (case ps of
           [] \<Rightarrow> False
         | q # qs \<Rightarrow> (case s of [] \<Rightarrow> False | c # cs \<Rightarrow> c = q \<and> like esc qs cs))
      else if p = CHR ''%'' then
        (like esc ps s \<or> (case s of [] \<Rightarrow> False | c # cs \<Rightarrow> like esc (p # ps) cs))
      else if p = CHR ''_'' then
        (case s of [] \<Rightarrow> False | c # cs \<Rightarrow> like esc ps cs)
      else
        (case s of [] \<Rightarrow> False | c # cs \<Rightarrow> c = p \<and> like esc ps cs))"

definition lower_char :: "char \<Rightarrow> char" where
  "lower_char c =
     (let n = (of_char c :: nat) in if 65 \<le> n \<and> n \<le> 90 then char_of (n + 32) else c)"

definition lower :: "string \<Rightarrow> string" where
  "lower s = map lower_char s"

definition ilike :: "char option \<Rightarrow> string \<Rightarrow> string \<Rightarrow> bool" where
  "ilike esc s p = like esc (lower p) (lower s)"


subsection \<open>Schemas (schemas/expense.py) and the objects of a session\<close>

text \<open>
  \<open>ExpenseUpdate\<close> has four optional fields. Pydantic records which fields were given to
  the constructor (\<open>fields_set\<close>), whatever their value, and \<open>dict(exclude_unset=True)\<close>
  lists exactly those, in declaration order.
\<close>

datatype field = F_description | F_amount | F_category | F_date

record expense_update =
  upd_description :: "string option"
  upd_amount :: "amount option"
  upd_category :: "string option"
  upd_date :: "datetime option"
  fields_set :: "field list"

datatype field_value =
    Description_val "string option"
  | Amount_val "amount option"
  | Category_val "string option"
  | Date_val "datetime option"

definition dict_exclude_unset :: "expense_update \<Rightarrow> field_value list" where
  "dict_exclude_unset u =
     (if F_description \<in> set (fields_set u) then [Description_val (upd_description u)] else []) @
     (if F_amount \<in> set (fields_set u) then [Amount_val (upd_amount u)] else []) @
     (if F_category \<in> set (fields_set u) then [Category_val (upd_category u)] else []) @
     (if F_date \<in> set (fields_set u) then [Date_val (upd_date u)] else [])"

text \<open>
  An \<open>Expense\<close> object loaded in a session. Assignment to a table model is not validated,
  so the four updatable attributes can hold \<open>None\<close> until the object is validated or
  flushed.
\<close>

record orm_expense =
  o_id :: int
  o_amount :: "amount option"
  o_description :: "string option"
  o_category :: "string option"
  o_date :: "datetime option"
  o_user_id :: int

definition orm_of :: "expense \<Rightarrow> orm_expense" where
  "orm_of e = \<lparr>o_id = e_id e, o_amount = Some (e_amount e),
     o_description = Some (e_description e), o_category = Some (e_category e),
     o_date = Some (e_date e), o_user_id = e_user_id e\<rparr>"

fun setattr :: "orm_expense \<Rightarrow> field_value \<Rightarrow> orm_expense" where
  "setattr ob (Description_val v) = ob\<lparr>o_description := v\<rparr>"
| "setattr ob (Amount_val v) = ob\<lparr>o_amount := v\<rparr>"
| "setattr ob (Category_val v) = ob\<lparr>o_category := v\<rparr>"
| "setattr ob (Date_val v) = ob\<lparr>o_date := v\<rparr>"

text \<open>
  \<open>ExpenseInDB.from_orm\<close>: description, amount, category and date are required, so an
  attribute that holds \<open>None\<close> is a validation error naming the fields at fault.
\<close>

definition missing_fields :: "orm_expense \<Rightarrow> string list" where
  "missing_fields ob =
     (if o_description ob = None then [''description''] else []) @
     (if o_amount ob = None then [''amount''] else []) @
     (if o_category ob = None then [''category''] else []) @
     (if o_date ob = None then [''date''] else [])"

definition from_orm :: "orm_expense \<Rightarrow> exn + expense" where
  "from_orm ob =
     (case (o_amount ob, o_description ob, o_category ob, o_date ob) of
        (Some a, Some d, Some c, Some t) \<Rightarrow>
          Inr \<lparr>e_id = o_id ob, e_amount = a, e_description = d, e_category = c,
               e_date = t, e_user_id = o_user_id ob\<rparr>
      | _ \<Rightarrow> Inl (ValidationError ''ExpenseInDB'' (missing_fields ob)))"

text \<open>The date column has no time zone: a committed row keeps the wall-clock reading.\<close>

definition store_row :: "expense \<Rightarrow> expense" where
  "store_row e = e\<lparr>e_date := (e_date e)\<lparr>utcoffset := None\<rparr>\<rparr>"

section \<open>Controllers (controllers/expense_controller.py)\<close>

text \<open>
  Each controller takes the database a session sees and returns the value or the
  exception it raises, with the database after the call. A failed call is rolled back:
  the database is the one it started from.
\<close>

definition in_category :: "string \<Rightarrow> int \<Rightarrow> expense \<Rightarrow> bool" where
  "in_category category uid e \<longleftrightarrow> e_category e = category \<and> e_user_id e = uid"

definition updated_object :: "expense_update \<Rightarrow> expense \<Rightarrow> orm_expense" where
  "updated_object u e = foldl setattr (orm_of e) (dict_exclude_unset u)"

fun update_loop :: "expense_update \<Rightarrow> expense list \<Rightarrow> exn + expense list" where
  "update_loop u [] = Inr []"
| "update_loop u (e # es) =
     (case from_orm (updated_object u e) of
        Inl x \<Rightarrow> Inl x
      | Inr v \<Rightarrow> (case update_loop u es of Inl x \<Rightarrow> Inl x | Inr vs \<Rightarrow> Inr (v # vs)))"

definition commit_update :: "expense_update \<Rightarrow> expense \<Rightarrow> expense" where
  "commit_update u e =
     (case from_orm (updated_object u e) of Inl x \<Rightarrow> e | Inr v \<Rightarrow> store_row v)"

definition update_expenses_by_category ::
  "database \<Rightarrow> string \<Rightarrow> expense_update \<Rightarrow> int \<Rightarrow> (exn + expense list) \<times> database" where
  "update_expenses_by_category db category expense_update uid =
     (let selected = filter (in_category category uid) (expenses db) in
      if selected = [] then
        (Inl (HTTPException 404 (''No expenses found in category '' @ quote category @ ''.'')), db)
      else
        (case update_loop expense_update selected of
           Inl e \<Rightarrow>
             (Inl (HTTPException 500
                (''Failed to update expenses by category '' @ quote category @ '': '' @ str_exn e)), db)
         | Inr updated_expenses \<Rightarrow>
             (Inr updated_expenses,
              db\<lparr>expenses := map (\<lambda>e. if in_category category uid e
                                        then commit_update expense_update e else e)
                                 (expenses db)\<rparr>)))"

definition delete_expenses_by_category ::
  "database \<Rightarrow> string \<Rightarrow> int \<Rightarrow> (exn + string) \<times> database" where
  "delete_expenses_by_category db category uid =
     (let selected = filter (in_category category uid) (expenses db) in
      if selected = [] then
        (Inl (HTTPException 404 (''No expenses found in category '' @ quote category @ ''.'')), db)
      else
        (Inr (''Deleted '' @ str_nat (length selected) @ '' expenses in category '' @
              quote category @ ''.''),
         db\<lparr>expenses := filter (\<lambda>e. \<not> in_category category uid e) (expenses db)\<rparr>))"


section \<open>The tool layer (agents/agent.py)\<close>

subsection \<open>Python truthiness and text fragments\<close>

text \<open>
  \<open>if not user_id\<close> holds for \<open>None\<close> and for \<open>0\<close>; \<open>if category\<close> fails for \<open>None\<close> and
  for the empty string. \<open>text_of\<close> is how an f-string prints an optional string.
\<close>

definition caller :: "int option \<Rightarrow> int option" where
  "caller ctx = (case ctx of None \<Rightarrow> None | Some u \<Rightarrow> if u = 0 then None else Some u)"

definition truthy :: "string option \<Rightarrow> bool" where
  "truthy s = (case s of None \<Rightarrow> False | Some t \<Rightarrow> t \<noteq> [])"

definition text_of :: "string option \<Rightarrow> string" where
  "text_of s = (case s of None \<Rightarrow> ''None'' | Some t \<Rightarrow> t)"

subsection \<open>Results\<close>

text \<open>
  The mutating tools return a dictionary with a status, a message and, on success, the
  data. The query tool returns text: its fixed messages are kept as text, and the listing
  of expenses is kept as the three values the text is printed from (the category given,
  the rows, the total).
\<close>

datatype 'a tool_result = Status_success string 'a | Status_error string

datatype query_reply = Reply_text string | Reply_listing "string option" "expense list" amount

subsection \<open>The names bound in the module\<close>

text \<open>
  The names that the imports and definitions of agent.py bind at module level. An
  \<open>except N as e\<close> clause looks \<open>N\<close> up when an exception reaches it; a name that is
  neither bound here nor a builtin raises \<open>NameError\<close> in place of the handling.
\<close>

definition agent_globals :: "string list" where
  "agent_globals =
     [''os'', ''sys'', ''traceback'', ''load_dotenv'', ''Session'', ''select'',
      ''get_session'', ''engine'', ''MessagesState'', ''StateGraph'', ''START'', ''END'',
      ''tools_condition'', ''ToolNode'', ''ChatGoogleGenerativeAI'', ''LLMSystemMessage'',
      ''HumanMessage'', ''AIMessage'', ''SystemMessage'', ''List'', ''Optional'', ''Dict'',
      ''Any'', ''datetime'', ''get_expenses'', ''create_expense'',
      ''update_expenses_by_category'', ''delete_expenses_by_category'',
      ''get_expenses_by_category'', ''ExpenseCreate'', ''ExpenseUpdate'', ''arrow'',
      ''logging'', ''Expense'', ''User'', ''RemoveMessage'', ''MemorySaver'', ''contextvars'',
      ''current_user_id'', ''logger'', ''google_api_key'', ''llm'', ''dateparser'',
      ''tool_get_expenses'', ''tool_create_expenses'', ''tool_update_expenses'',
      ''tool_delete_expenses'', ''tools'', ''llm_with_tools'', ''sys_msg'', ''TypedDict'',
      ''Annotated'', ''add_messages'', ''AnyMessage'', ''State'', ''assistant'',
      ''summarize_conversation'', ''should_continue'', ''builder'', ''memory'',
      ''compiled_graph'']"

text \<open>
  The handlers of \<open>tool_update_expenses\<close> and \<open>tool_delete_expenses\<close>:
  \<open>except HTTPException as he\<close> first, \<open>except Exception as e\<close> second.
\<close>

definition tool_except :: "exn \<Rightarrow> exn + 'a tool_result" where
  "tool_except e =
     (if ''HTTPException'' \<notin> set agent_globals then Inl (NameError ''HTTPException'')
      else (case e of
              HTTPException code detail \<Rightarrow> Inr (Status_error detail)
            | _ \<Rightarrow> Inr (Status_error (str_exn e))))"

subsection \<open>tool_get_expenses\<close>

definition parse_if_given :: "(string \<Rightarrow> datetime option) \<Rightarrow> string option \<Rightarrow> datetime option" where
  "parse_if_given parse s =
     (case s of None \<Rightarrow> None | Some t \<Rightarrow> if t = [] then None else parse t)"

definition start_after_end :: "datetime option \<Rightarrow> datetime option \<Rightarrow> exn + bool" where
  "start_after_end ps pe =
     (case ps of
        None \<Rightarrow> Inr False
      | Some a \<Rightarrow> (case pe of None \<Rightarrow> Inr False | Some b \<Rightarrow> dt_gt a b))"

definition category_filter :: "char option \<Rightarrow> string option \<Rightarrow> expense \<Rightarrow> bool" where
  "category_filter esc category x =
     (case category of
        None \<Rightarrow> True
      | Some c \<Rightarrow> if c = [] then True else ilike esc (e_category x) (''%'' @ c @ ''%''))"

definition description_filter :: "char option \<Rightarrow> string option \<Rightarrow> expense \<Rightarrow> bool" where
  "description_filter esc keyword x =
     (case keyword of
        None \<Rightarrow> True
      | Some k \<Rightarrow> if k = [] then True else ilike esc (e_description x) (''%'' @ k @ ''%''))"

definition date_filter :: "datetime option \<Rightarrow> datetime option \<Rightarrow> expense \<Rightarrow> bool" where
  "date_filter ps pe x =
     (case ps of
        Some a \<Rightarrow>
          (case pe of
             Some b \<Rightarrow> wall a \<le> wall (e_date x) \<and> wall (e_date x) \<le> wall b
           | None \<Rightarrow> wall a \<le> wall (e_date x))
      | None \<Rightarrow> (case pe of Some b \<Rightarrow> wall (e_date x) \<le> wall b | None \<Rightarrow> True))"

definition select_expenses ::
  "database \<Rightarrow> int \<Rightarrow> string option \<Rightarrow> string option \<Rightarrow> datetime option \<Rightarrow> datetime option
     \<Rightarrow> expense list" where
  "select_expenses db uid category keyword ps pe =
     filter (\<lambda>x. e_user_id x = uid \<and> category_filter (like_escape db) category x \<and>
                 description_filter (like_escape db) keyword x \<and> date_filter ps pe x)
            (expenses db)"

definition total_amount :: "expense list \<Rightarrow> amount" where
  "total_amount es = foldl (\<lambda>acc x. acc + e_amount x) 0 es"

definition get_expenses_try ::
  "(string \<Rightarrow> datetime option) \<Rightarrow> int \<Rightarrow> string option \<Rightarrow> string option \<Rightarrow> string option
     \<Rightarrow> string option \<Rightarrow> database \<Rightarrow> exn + query_reply" where
  "get_expenses_try parse user_id category start_date end_date description_keyword db =
     (let parsed_start_date = parse_if_given parse start_date;
          parsed_end_date = parse_if_given parse end_date
      in
      if truthy start_date \<and> parsed_start_date = None then
        Inr (Reply_text (''Error: Unable to parse the start date '' @ quote (text_of start_date) @
                         ''. Please use a valid date format.''))
      else if truthy end_date \<and> parsed_end_date = None then
        Inr (Reply_text (''Error: Unable to parse the end date '' @ quote (text_of end_date) @
                         ''. Please use a valid date format.''))
      else
        (case start_after_end parsed_start_date parsed_end_date of
           Inl e \<Rightarrow> Inl e
         | Inr after \<Rightarrow>
             if after then Inr (Reply_text ''Error: Start date cannot be after end date.'')
             else if user_id \<notin> set (users db) then Inr (Reply_text ''Error: User not found.'')
             else
               (let found = select_expenses db user_id category description_keyword
                              parsed_start_date parsed_end_date
                in
                if found \<noteq> [] then Inr (Reply_listing category found (total_amount found))
                else Inr (Reply_text ''No expenses found with the specified criteria.''))))"

definition tool_get_expenses ::
  "(string \<Rightarrow> datetime option) \<Rightarrow> int option \<Rightarrow> string option \<Rightarrow> string option \<Rightarrow> string option
     \<Rightarrow> string option \<Rightarrow> database \<Rightarrow> (exn + query_reply) \<times> database" where
  "tool_get_expenses parse ctx category start_date end_date description_keyword db =
     (case caller ctx of
        None \<Rightarrow> (Inr (Reply_text ''Error: User ID is missing.''), db)
      | Some user_id \<Rightarrow>
          (case get_expenses_try parse user_id category start_date end_date
                  description_keyword db of
             Inl e \<Rightarrow> (Inr (Reply_text (''Error retrieving expenses: '' @ str_exn e)), db)
           | Inr response \<Rightarrow> (Inr response, db)))"

subsection \<open>tool_create_expenses\<close>

text \<open>
  \<open>ExpenseCreate\<close> requires a description, so \<open>None\<close> is a validation error. The insert
  takes the next key; with foreign keys enforced it is rejected for an unknown user. Both
  exceptions reach \<open>except Exception\<close>. \<open>now\<close> is the reading of \<open>datetime.now()\<close>.
\<close>

definition create_expenses_try ::
  "int \<Rightarrow> int \<Rightarrow> amount \<Rightarrow> string \<Rightarrow> string option \<Rightarrow> database
     \<Rightarrow> (exn + expense tool_result) \<times> database" where
  "create_expenses_try now user_id amount category description db =
     (case description of
        None \<Rightarrow> (Inl (ValidationError ''ExpenseCreate'' [''description'']), db)
      | Some d \<Rightarrow>
          if enforce_fk db \<and> user_id \<notin> set (users db) then
            (Inl (IntegrityError ''foreign key constraint failed''), db)
          else
            (let db_expense = \<lparr>e_id = next_id db, e_amount = amount, e_description = d,
                                e_category = category,
                                e_date = \<lparr>wall = now, utcoffset = None\<rparr>,
                                e_user_id = user_id\<rparr>
             in (Inr (Status_success ''Expense stored successfully.'' db_expense),
                 db\<lparr>expenses := expenses db @ [db_expense], next_id := next_id db + 1\<rparr>)))"

definition tool_create_expenses ::
  "int \<Rightarrow> int option \<Rightarrow> amount \<Rightarrow> string \<Rightarrow> string option \<Rightarrow> database
     \<Rightarrow> (exn + expense tool_result) \<times> database" where
  "tool_create_expenses now ctx amount category description db =
     (case caller ctx of
        None \<Rightarrow> (Inr (Status_error ''User ID is missing.''), db)
      | Some user_id \<Rightarrow>
          (case create_expenses_try now user_id amount category description db of
             (Inl e, db') \<Rightarrow> (Inr (Status_error (str_exn e)), db')
           | (Inr r, db') \<Rightarrow> (Inr r, db')))"

subsection \<open>tool_update_expenses\<close>

text \<open>
  The parsed date is printed as \<open>%Y-%m-%dT%H:%M:%S.%fZ\<close> and read back by the schema: the
  same wall-clock reading, now in UTC. A year below 1000 is printed with fewer than four
  digits, and the schema does not read that text: \<open>strftime_Z\<close> is \<open>None\<close> there and the
  constructor of \<open>ExpenseUpdate\<close> raises a validation error. The schema object is built
  with all four keywords.
\<close>

definition strftime_Z :: "datetime \<Rightarrow> datetime option" where
  "strftime_Z d = (if wall d < year_1000 then None else Some (d\<lparr>utcoffset := Some 0\<rparr>))"

definition formatted_date ::
  "(string \<Rightarrow> datetime option) \<Rightarrow> string option \<Rightarrow> exn + datetime option" where
  "formatted_date parse date =
     (if truthy date then
        (case parse (text_of date) of
           None \<Rightarrow> Inr None
         | Some parsed_date \<Rightarrow>
             (case strftime_Z parsed_date of
                None \<Rightarrow> Inl (ValidationError ''ExpenseUpdate'' [''date''])
              | Some d \<Rightarrow> Inr (Some d)))
      else Inr None)"

definition ExpenseUpdate ::
  "string option \<Rightarrow> amount option \<Rightarrow> string option \<Rightarrow> datetime option \<Rightarrow> expense_update" where
  "ExpenseUpdate description amount category date =
     \<lparr>upd_description = description, upd_amount = amount, upd_category = category,
      upd_date = date, fields_set = [F_description, F_amount, F_category, F_date]\<rparr>"

definition update_expenses_try ::
  "(string \<Rightarrow> datetime option) \<Rightarrow> int \<Rightarrow> string \<Rightarrow> string option \<Rightarrow> amount option
     \<Rightarrow> string option \<Rightarrow> database \<Rightarrow> (exn + expense list tool_result) \<times> database" where
  "update_expenses_try parse user_id category description amount date db =
     (if truthy date \<and> parse (text_of date) = None then
        (Inr (Status_error (''Unable to parse the date '' @ quote (text_of date) @ ''.'')), db)
      else
        (case formatted_date parse date of
           Inl e \<Rightarrow> (Inl e, db)
         | Inr formatted \<Rightarrow>
             (let expense_update = ExpenseUpdate description amount (Some category) formatted
              in
              if user_id \<notin> set (users db) then (Inr (Status_error ''User not found.''), db)
              else
                (case update_expenses_by_category db category expense_update user_id of
                   (Inl e, db') \<Rightarrow> (Inl e, db')
                 | (Inr updated_expenses, db') \<Rightarrow>
                     (Inr (Status_success
                             (''Updated '' @ str_nat (length updated_expenses) @
                              '' expenses in category '' @ quote category @ ''.'')
                             updated_expenses), db')))))"

definition tool_update_expenses ::
  "(string \<Rightarrow> datetime option) \<Rightarrow> int option \<Rightarrow> string \<Rightarrow> string option \<Rightarrow> amount option
     \<Rightarrow> string option \<Rightarrow> database \<Rightarrow> (exn + expense list tool_result) \<times> database" where
  "tool_update_expenses parse ctx category description amount date db =
     (case caller ctx of
        None \<Rightarrow> (Inr (Status_error ''User ID is missing.''), db)
      | Some user_id \<Rightarrow>
          (case update_expenses_try parse user_id category description amount date db of
             (Inl e, db') \<Rightarrow> (tool_except e, db')
           | (Inr r, db') \<Rightarrow> (Inr r, db')))"

subsection \<open>tool_delete_expenses\<close>

definition delete_expenses_try ::
  "int \<Rightarrow> string \<Rightarrow> database \<Rightarrow> (exn + unit tool_result) \<times> database" where
  "delete_expenses_try user_id category db =
     (if user_id \<notin> set (users db) then (Inr (Status_error ''User not found.''), db)
      else
        (case delete_expenses_by_category db category user_id of
           (Inl e, db') \<Rightarrow> (Inl e, db')
         | (Inr message, db') \<Rightarrow> (Inr (Status_success message ()), db')))"

definition tool_delete_expenses ::
  "int option \<Rightarrow> string \<Rightarrow> database \<Rightarrow> (exn + unit tool_result) \<times> database" where
  "tool_delete_expenses ctx category db =
     (case caller ctx of
        None \<Rightarrow> (Inr (Status_error ''User ID is missing.''), db)
      | Some user_id \<Rightarrow>
          (case delete_expenses_try user_id category db of
             (Inl e, db') \<Rightarrow> (tool_except e, db')
           | (Inr r, db') \<Rightarrow> (Inr r, db')))"


section \<open>The conversation graph (agents/agent.py)\<close>

subsection \<open>Messages and the state\<close>

text \<open>
  A message carries an optional identifier and its text; an assistant message also
  carries the tool calls it requests (name and arguments). \<open>RemoveMessage\<close> only names
  the message to drop.
\<close>

type_synonym tool_call = "string \<times> string"

datatype message =
    SystemMessage "string option" string
  | HumanMessage "string option" string
  | AIMessage "string option" string "tool_call list"
  | ToolMessage "string option" string
  | RemoveMessage "string option"

fun msg_id :: "message \<Rightarrow> string option" where
  "msg_id (SystemMessage i c) = i"
| "msg_id (HumanMessage i c) = i"
| "msg_id (AIMessage i c calls) = i"
| "msg_id (ToolMessage i c) = i"
| "msg_id (RemoveMessage i) = i"

fun set_id :: "string \<Rightarrow> message \<Rightarrow> message" where
  "set_id j (SystemMessage i c) = SystemMessage (Some j) c"
| "set_id j (HumanMessage i c) = HumanMessage (Some j) c"
| "set_id j (AIMessage i c calls) = AIMessage (Some j) c calls"
| "set_id j (ToolMessage i c) = ToolMessage (Some j) c"
| "set_id j (RemoveMessage i) = RemoveMessage (Some j)"

fun content :: "message \<Rightarrow> string" where
  "content (SystemMessage i c) = c"
| "content (HumanMessage i c) = c"
| "content (AIMessage i c calls) = c"
| "content (ToolMessage i c) = c"
| "content (RemoveMessage i) = []"

fun is_remove :: "message \<Rightarrow> bool" where
  "is_remove (RemoveMessage i) = True"
| "is_remove m = False"

fun is_ai :: "message \<Rightarrow> bool" where
  "is_ai (AIMessage i c calls) = True"
| "is_ai m = False"

text \<open>The state of the graph: the retained messages and the summary (absent at first).\<close>

record state =
  messages :: "message list"
  summary :: "string option"

text \<open>What a node returns: the messages to merge and, when given, the new summary.\<close>

record node_update =
  new_messages :: "message list"
  new_summary :: "string option"

subsection \<open>The message reducer\<close>

text \<open>
  \<open>add_messages\<close> is the reducer of the \<open>messages\<close> key, from the graph library. It gives
  every message that has no identifier a fresh one (\<open>uuid\<close> is the supply), then merges
  the update into the existing list: an update with a known identifier replaces the
  message, or marks it for removal when it is a \<open>RemoveMessage\<close>; an update with an
  unknown identifier is appended, and raises \<open>ValueError\<close> when it is a \<open>RemoveMessage\<close>.
\<close>

fun assign_ids :: "(nat \<Rightarrow> string) \<Rightarrow> nat \<Rightarrow> message list \<Rightarrow> message list \<times> nat" where
  "assign_ids uuid k [] = ([], k)"
| "assign_ids uuid k (m # ms) =
     (case msg_id m of
        None \<Rightarrow> (case assign_ids uuid (Suc k) ms of (ms', k') \<Rightarrow> (set_id (uuid k) m # ms', k'))
      | Some i \<Rightarrow> (case assign_ids uuid k ms of (ms', k') \<Rightarrow> (m # ms', k')))"

definition left_idx_by_id :: "message list \<Rightarrow> string option \<Rightarrow> nat option" where
  "left_idx_by_id left i =
     (case filter (\<lambda>k. msg_id (left ! k) = i) (rev [0..<length left]) of
        [] \<Rightarrow> None
      | k # ks \<Rightarrow> Some k)"

fun merge_messages ::
  "message list \<Rightarrow> message list \<Rightarrow> string option list \<Rightarrow> message list
     \<Rightarrow> exn + message list \<times> string option list" where
  "merge_messages left merged ids_to_remove [] = Inr (merged, ids_to_remove)"
| "merge_messages left merged ids_to_remove (m # ms) =
     (case left_idx_by_id left (msg_id m) of
        Some existing_idx \<Rightarrow>
          if is_remove m then merge_messages left merged (msg_id m # ids_to_remove) ms
          else merge_messages left (merged[existing_idx := m]) ids_to_remove ms
      | None \<Rightarrow>
          if is_remove m then
            Inl (ValueError (''Attempting to delete a message with an ID that doesn't exist (''
                             @ quote (text_of (msg_id m)) @ '')''))
          else merge_messages left (merged @ [m]) ids_to_remove ms)"

definition add_messages ::
  "(nat \<Rightarrow> string) \<Rightarrow> message list \<Rightarrow> message list \<Rightarrow> exn + message list" where
  "add_messages uuid left right =
     (case assign_ids uuid 0 left of
        (left', k) \<Rightarrow>
          (case assign_ids uuid k right of
             (right', k') \<Rightarrow>
               (case merge_messages left' left' [] right' of
                  Inl e \<Rightarrow> Inl e
                | Inr (merged, ids_to_remove) \<Rightarrow>
                    Inr (filter (\<lambda>m. msg_id m \<notin> set ids_to_remove) merged))))"

definition apply_update :: "(nat \<Rightarrow> string) \<Rightarrow> state \<Rightarrow> node_update \<Rightarrow> exn + state" where
  "apply_update uuid st u =
     (case add_messages uuid (messages st) (new_messages u) of
        Inl e \<Rightarrow> Inl e
      | Inr ms \<Rightarrow>
          Inr \<lparr>messages = ms,
               summary = (case new_summary u of None \<Rightarrow> summary st | Some t \<Rightarrow> Some t)\<rparr>)"

subsection \<open>Nodes\<close>

text \<open>
  The model is a parameter: \<open>llm\<close> maps the messages it is given to its response, or to
  the exception of a failed call. \<open>persona\<close> is the text of \<open>sys_msg\<close>.
\<close>

definition get_summary :: "state \<Rightarrow> string" where
  "get_summary st = (case summary st of None \<Rightarrow> [] | Some t \<Rightarrow> t)"

definition assistant ::
  "string \<Rightarrow> (message list \<Rightarrow> exn + message) \<Rightarrow> state \<Rightarrow> exn + node_update" where
  "assistant persona llm st =
     (let prompt =
            (if get_summary st \<noteq> [] then
               [SystemMessage None (''Summary of conversation earlier: '' @ get_summary st @
                                    [CHR 0x0A, CHR 0x0A] @ persona)] @ messages st
             else [SystemMessage None persona] @ messages st)
      in case llm prompt of
           Inl e \<Rightarrow> Inl e
         | Inr response \<Rightarrow> Inr \<lparr>new_messages = [response], new_summary = None\<rparr>)"

definition summary_message :: "state \<Rightarrow> string" where
  "summary_message st =
     (if get_summary st \<noteq> [] then
        ''This is summary of the conversation to date: '' @ get_summary st @
        [CHR 0x0A, CHR 0x0A] @
        ''Extend the summary by taking into account the new messages above:''
      else ''Create a summary of the conversation above:'')"

definition summarize_conversation ::
  "(message list \<Rightarrow> exn + message) \<Rightarrow> state \<Rightarrow> exn + node_update" where
  "summarize_conversation llm st =
     (case llm (messages st @ [HumanMessage None (summary_message st)]) of
        Inl e \<Rightarrow> Inl e
      | Inr response \<Rightarrow>
          Inr \<lparr>new_messages = map (\<lambda>m. RemoveMessage (msg_id m))
                                  (take (length (messages st) - 2) (messages st)),
               new_summary = Some (content response)\<rparr>)"

subsection \<open>Edges\<close>

datatype node = START | Assistant | Tools | Summarize_conversation | END

definition should_continue :: "state \<Rightarrow> node" where
  "should_continue st = (if length (messages st) > 6 then Summarize_conversation else END)"

text \<open>
  \<open>tools_condition\<close> is the library's routing function: to the tools when the last
  message is an assistant message with at least one tool call, to the end otherwise.
\<close>

definition tools_condition :: "state \<Rightarrow> exn + node" where
  "tools_condition st =
     (if messages st = [] then Inl (ValueError ''No messages found in input state to tool_edge'')
      else (case last (messages st) of
              AIMessage i c calls \<Rightarrow> if length calls > 0 then Inr Tools else Inr END
            | _ \<Rightarrow> Inr END))"

text \<open>
  The edges the builder declares. A node with several conditional edges follows all of
  them: every routing function is run on the state the node produced, and each result
  other than \<open>END\<close> is a node of the next step.
\<close>

definition destinations :: "node \<Rightarrow> state \<Rightarrow> exn + node list" where
  "destinations n st =
     (case n of
        START \<Rightarrow> Inr [Assistant]
      | Assistant \<Rightarrow>
          (case tools_condition st of
             Inl e \<Rightarrow> Inl e
           | Inr d \<Rightarrow> Inr [d, should_continue st])
      | Tools \<Rightarrow> Inr [Assistant]
      | Summarize_conversation \<Rightarrow> Inr [END]
      | END \<Rightarrow> Inr [])"

definition next_nodes :: "node \<Rightarrow> state \<Rightarrow> exn + node list" where
  "next_nodes n st =
     (case destinations n st of Inl e \<Rightarrow> Inl e | Inr ds \<Rightarrow> Inr (filter (\<lambda>d. d \<noteq> END) ds))"

section \<open>The query endpoint (routers/agent_router.py)\<close>

text \<open>
  The process: the context variable \<open>current_user_id\<close> (default \<open>None\<close>), the database
  and the checkpointed conversation. \<open>graph\<close> stands for \<open>compiled_graph.invoke\<close>: it
  runs a turn on the process and returns the final state or raises.
\<close>

record process =
  current_user_id :: "int option"
  store :: database
  checkpoint :: state

definition last_ai_message :: "message list \<Rightarrow> message option" where
  "last_ai_message ms = (case filter is_ai (rev ms) of [] \<Rightarrow> None | m # rest \<Rightarrow> Some m)"

definition extract_response :: "state \<Rightarrow> exn + string" where
  "extract_response response_state =
     (if messages response_state = [] then Inl (ValueError ''No messages returned from the agent.'')
      else (case last_ai_message (messages response_state) of
              None \<Rightarrow> Inl (ValueError ''No AI message found in the response.'')
            | Some assistant_message \<Rightarrow> Inr (content assistant_message)))"

definition query_agent ::
  "(message list \<Rightarrow> process \<Rightarrow> (exn + state) \<times> process) \<Rightarrow> int \<Rightarrow> string \<Rightarrow> process
     \<Rightarrow> (exn + string) \<times> process" where
  "query_agent graph user_id user_message p =
     (let token = current_user_id p;
          p1 = p\<lparr>current_user_id := Some user_id\<rparr>
      in case graph [HumanMessage None user_message] p1 of
           (outcome, p2) \<Rightarrow>
             (let p3 = p2\<lparr>current_user_id := token\<rparr>;
                  reply = (case outcome of Inl e \<Rightarrow> Inl e | Inr response_state \<Rightarrow>
                             extract_response response_state)
              in case reply of
                   Inl e \<Rightarrow> (Inl (HTTPException 500 (str_exn e)), p3)
                 | Inr response_content \<Rightarrow> (Inr response_content, p3)))"


section \<open>Example data\<close>

text \<open>User 1 owns one expense, a flight of 120.00 in category Travel.\<close>

definition flight :: expense where
  "flight = \<lparr>e_id = 1, e_amount = 120, e_description = ''Flight to NYC'',
     e_category = ''Travel'', e_date = \<lparr>wall = 5, utcoffset = None\<rparr>, e_user_id = 1\<rparr>"

definition travel_db :: database where
  "travel_db = \<lparr>expenses = [flight], users = [1], next_id = 2, backslash_escape = False,
     enforce_fk = False\<rparr>"

definition no_dates :: "string \<Rightarrow> datetime option" where
  "no_dates s = None"

text \<open>
  A date parser that knows two texts, for the examples, and reads \<open>1 January\<close> as
  the earlier of the two.
\<close>

definition january :: "string \<Rightarrow> datetime option" where
  "january s =
     (if s = ''1 January'' then Some \<lparr>wall = 1, utcoffset = None\<rparr>
      else if s = ''25 January'' then Some \<lparr>wall = 25, utcoffset = None\<rparr>
      else None)"

text \<open>
  Three exchanges of a conversation, then a seventh message: an assistant message that
  requests a tool call in \<open>busy_state\<close>, a plain answer in \<open>idle_state\<close>.
\<close>

definition six_messages :: "message list" where
  "six_messages =
     [HumanMessage (Some ''m1'') ''Hello'', AIMessage (Some ''m2'') ''Hi'' [],
      HumanMessage (Some ''m3'') ''I bought a bike'', AIMessage (Some ''m4'') ''Shall I log it?'' [],
      HumanMessage (Some ''m5'') ''Yes'', AIMessage (Some ''m6'') ''Logged.'' []]"

definition busy_state :: state where
  "busy_state =
     \<lparr>messages = six_messages @
        [AIMessage (Some ''m7'') [] [(''tool_get_expenses'', ''category=Travel'')]],
      summary = None\<rparr>"

definition idle_state :: state where
  "idle_state =
     \<lparr>messages = six_messages @ [AIMessage (Some ''m7'') ''You spent 120.00 on travel.'' []],
      summary = Some ''The user logged a bike.''\<rparr>"

text \<open>
  A database with a second user, who also has an expense in category Travel; here
  \<open>LIKE\<close> escapes with the backslash and foreign keys are enforced.
\<close>

definition taxi :: expense where
  "taxi = \<lparr>e_id = 2, e_amount = 50, e_description = ''Taxi from airport'',
     e_category = ''Travel'', e_date = \<lparr>wall = 6, utcoffset = None\<rparr>, e_user_id = 2\<rparr>"

definition shared_db :: database where
  "shared_db = \<lparr>expenses = [flight, taxi], users = [1, 2], next_id = 3,
     backslash_escape = True, enforce_fk = True\<rparr>"

text \<open>
  User 1 with two expenses whose categories differ in letter case only, \<open>Travel\<close> and
  \<open>travel\<close>.
\<close>

definition commute :: expense where
  "commute = \<lparr>e_id = 3, e_amount = 30, e_description = ''Train to work'',
     e_category = ''travel'', e_date = \<lparr>wall = 7, utcoffset = None\<rparr>, e_user_id = 1\<rparr>"

definition two_db :: database where
  "two_db = \<lparr>expenses = [flight, commute], users = [1], next_id = 4,
     backslash_escape = False, enforce_fk = False\<rparr>"

text \<open>
  A category and a selector that hold a backslash and differ in letter case only, in a
  database where \<open>LIKE\<close> escapes with the backslash.
\<close>

definition upper_AB :: string where
  "upper_AB = [CHR ''A'', CHR 0x5C, CHR ''B'']"

definition lower_ab :: string where
  "lower_ab = [CHR ''a'', CHR 0x5C, CHR ''b'']"

definition voucher :: expense where
  "voucher = \<lparr>e_id = 1, e_amount = 10, e_description = ''Voucher'',
     e_category = upper_AB, e_date = \<lparr>wall = 8, utcoffset = None\<rparr>, e_user_id = 1\<rparr>"

definition escaping_db :: database where
  "escaping_db = \<lparr>expenses = [voucher], users = [1], next_id = 2,
     backslash_escape = True, enforce_fk = True\<rparr>"

text \<open>
  A date parser that knows \<open>1 January 2024\<close>, 738885 days after the origin of the
  wall-clock readings.
\<close>

definition new_year :: "string \<Rightarrow> datetime option" where
  "new_year s =
     (if s = ''1 January 2024'' then Some \<lparr>wall = 63839664000000000, utcoffset = None\<rparr>
      else None)"

section \<open>Vocabulary of the properties\<close>

text \<open>The error texts of the query tool all start with \<open>Error:\<close>.\<close>

definition is_error_text :: "string \<Rightarrow> bool" where
  "is_error_text t \<longleftrightarrow> take 6 t = ''Error:''"

text \<open>The last retained message is an assistant message that requests a tool call.\<close>

definition requests_tool_calls :: "state \<Rightarrow> bool" where
  "requests_tool_calls st =
     (case rev (messages st) of
        AIMessage i c calls # earlier \<Rightarrow> calls \<noteq> []
      | _ \<Rightarrow> False)"

text \<open>A model that answers every request with the same summary text.\<close>

definition summarizer :: "message list \<Rightarrow> exn + message" where
  "summarizer ms = Inr (AIMessage (Some ''s1'') ''The user logged a bike and asked about travel.'' [])"

text \<open>
  Substring matching as the specification words it: \<open>starts_with s p\<close> when \<open>p\<close> is a
  prefix of \<open>s\<close>, \<open>contains s p\<close> when \<open>p\<close> occurs in \<open>s\<close>. A filter is plain for a
  database when it holds no character that \<open>LIKE\<close> treats specially there.
\<close>

fun starts_with :: "string \<Rightarrow> string \<Rightarrow> bool" where
  "starts_with s [] = True"
| "starts_with [] (p # ps) = False"
| "starts_with (c # cs) (p # ps) = (c = p \<and> starts_with cs ps)"

fun contains :: "string \<Rightarrow> string \<Rightarrow> bool" where
  "contains [] p = (p = [])"
| "contains (c # cs) p = (starts_with (c # cs) p \<or> contains cs p)"

definition plain_filter :: "database \<Rightarrow> string \<Rightarrow> bool" where
  "plain_filter db c \<longleftrightarrow>
     CHR ''%'' \<notin> set c \<and> CHR ''_'' \<notin> set c \<and>
     (if backslash_escape db then CHR 0x5C \<notin> set c else True)"

text \<open>The rows of the table that belong to other users than \<open>u\<close>.\<close>

definition rows_of_others :: "int \<Rightarrow> database \<Rightarrow> expense list" where
  "rows_of_others u db = filter (\<lambda>e. e_user_id e \<noteq> u) (expenses db)"

section \<open>Exceptions that leave the tools\<close>

lemma HTTPException_unbound: "''HTTPException'' \<notin> set agent_globals"
  by (simp add: agent_globals_def)

lemma tool_except_NameError: "tool_except e = Inl (NameError ''HTTPException'')"
  by (simp add: tool_except_def HTTPException_unbound)

lemma caller_Some1: "caller (Some 1) = Some 1"
  by (simp add: caller_def)

text \<open>
  C1. The tool layer should always return a result, and a bulk delete on a category
  without records should return a structured not-found error. In the code the controller
  raises the 404, and the handler in the tool names \<open>HTTPException\<close>, which the module
  never imports: for user 1 and category Food the tool raises \<open>NameError\<close>. Nothing is
  deleted.
\<close>

theorem tool_delete_expenses_raises_NameError:
  "tool_delete_expenses (Some 1) ''Food'' travel_db = (Inl (NameError ''HTTPException''), travel_db)"
  by (simp add: tool_delete_expenses_def delete_expenses_try_def delete_expenses_by_category_def
      in_category_def tool_except_NameError caller_Some1 travel_db_def flight_def)

section \<open>Bulk update with some fields omitted\<close>

text \<open>
  The tool passes all four keywords to \<open>ExpenseUpdate\<close>, so none is unset and an omitted
  description or date is assigned as \<open>None\<close>; validation of the first object then fails.
\<close>

lemma dict_exclude_unset_ExpenseUpdate:
  "dict_exclude_unset (ExpenseUpdate d a c t) =
     [Description_val d, Amount_val a, Category_val c, Date_val t]"
  by (simp add: dict_exclude_unset_def ExpenseUpdate_def)

lemma updated_object_ExpenseUpdate:
  "updated_object (ExpenseUpdate d a c t) e =
     \<lparr>o_id = e_id e, o_amount = a, o_description = d, o_category = c, o_date = t,
      o_user_id = e_user_id e\<rparr>"
  by (simp add: updated_object_def dict_exclude_unset_ExpenseUpdate orm_of_def)

lemma from_orm_only_amount:
  "from_orm (updated_object (ExpenseUpdate None (Some a) (Some c) None) e) =
     Inl (ValidationError ''ExpenseInDB'' [''description'', ''date''])"
  by (simp add: updated_object_ExpenseUpdate from_orm_def missing_fields_def)

lemma update_only_amount_rolls_back:
  assumes "filter (in_category c uid) (expenses db) \<noteq> []"
  shows "update_expenses_by_category db c (ExpenseUpdate None (Some a) (Some c) None) uid =
     (Inl (HTTPException 500 (''Failed to update expenses by category '' @ quote c @ '': '' @
        str_exn (ValidationError ''ExpenseInDB'' [''description'', ''date'']))), db)"
proof -
  obtain x xs where sel: "filter (in_category c uid) (expenses db) = x # xs"
    using assms by (cases "filter (in_category c uid) (expenses db)") auto
  have "update_loop (ExpenseUpdate None (Some a) (Some c) None) (x # xs) =
      Inl (ValidationError ''ExpenseInDB'' [''description'', ''date''])"
    by (simp add: from_orm_only_amount)
  then show ?thesis
    by (simp add: update_expenses_by_category_def sel)
qed

text \<open>
  C2. A bulk update that supplies only the amount should set the amount of every matched
  record and leave description and date as they are. In the code the call for user 1,
  category Travel and amount 200 fails: the omitted description and date are assigned as
  \<open>None\<close>, validation rejects the object, the controller rolls back and raises, and the
  tool raises \<open>NameError\<close>. The amount of the matched record is still 120.
\<close>

theorem tool_update_expenses_only_amount_fails:
  "tool_update_expenses no_dates (Some 1) ''Travel'' None (Some 200) None travel_db =
     (Inl (NameError ''HTTPException''), travel_db) \<and>
   map e_amount (filter (in_category ''Travel'' 1) (expenses travel_db)) = [120]"
  by (simp add: tool_update_expenses_def update_expenses_try_def formatted_date_def
      update_only_amount_rolls_back in_category_def tool_except_NameError caller_Some1
      travel_db_def flight_def truthy_def)

section \<open>Calls without an identity\<close>

lemma caller_None: "caller None = None"
  by (simp add: caller_def)

text \<open>
  C6. With no user id in the identity context each of the four tools returns its
  missing-identity result at once: the value is returned, not raised, it is the same
  whatever the database holds, and the database is returned as it was.
\<close>

theorem missing_identity_result:
  "tool_get_expenses parse None cat start_date end_date description_keyword db =
     (Inr (Reply_text ''Error: User ID is missing.''), db) \<and>
   tool_create_expenses now None amt new_category description db =
     (Inr (Status_error ''User ID is missing.''), db) \<and>
   tool_update_expenses parse None selector new_description new_amount new_date db =
     (Inr (Status_error ''User ID is missing.''), db) \<and>
   tool_delete_expenses None selector db =
     (Inr (Status_error ''User ID is missing.''), db)"
  by (simp add: tool_get_expenses_def tool_create_expenses_def tool_update_expenses_def
      tool_delete_expenses_def caller_None)

section \<open>Date bounds of a query\<close>

lemma start_after_end_True:
  "start_after_end ps pe = Inr True \<Longrightarrow> ps \<noteq> None \<and> pe \<noteq> None"
  by (auto simp: start_after_end_def split: option.splits)

lemma get_expenses_try_unparsable:
  assumes "truthy sd \<and> parse_if_given parse sd = None \<or> truthy ed \<and> parse_if_given parse ed = None"
  shows "get_expenses_try parse u cat sd ed kw db =
     Inr (Reply_text
       (if truthy sd \<and> parse_if_given parse sd = None
        then ''Error: Unable to parse the start date '' @ quote (text_of sd) @
             ''. Please use a valid date format.''
        else ''Error: Unable to parse the end date '' @ quote (text_of ed) @
             ''. Please use a valid date format.''))"
  using assms by (auto simp: get_expenses_try_def Let_def)

lemma get_expenses_try_start_after_end:
  assumes "start_after_end (parse_if_given parse sd) (parse_if_given parse ed) = Inr True"
  shows "get_expenses_try parse u cat sd ed kw db =
     Inr (Reply_text ''Error: Start date cannot be after end date.'')"
  using assms start_after_end_True [OF assms]
  by (auto simp: get_expenses_try_def Let_def)

text \<open>
  C7. In a query, a start or end date that is given but does not parse yields an error
  text, returned and not raised; with an identity it names the date at fault. Bounds that
  both parse with the start after the end yield the validation error. In both cases the
  text is the same for every database, and the database is returned as it was.
\<close>

theorem query_date_validation:
  "(truthy start_date \<and> parse_if_given parse start_date = None \<or>
    truthy end_date \<and> parse_if_given parse end_date = None \<longrightarrow>
      (\<exists>t. is_error_text t \<and>
           (\<forall>db. tool_get_expenses parse ctx cat start_date end_date kw db =
                   (Inr (Reply_text t), db)) \<and>
           (caller ctx \<noteq> None \<longrightarrow>
              t = (if truthy start_date \<and> parse_if_given parse start_date = None
                   then ''Error: Unable to parse the start date '' @ quote (text_of start_date) @
                        ''. Please use a valid date format.''
                   else ''Error: Unable to parse the end date '' @ quote (text_of end_date) @
                        ''. Please use a valid date format.'')))) \<and>
   (start_after_end (parse_if_given parse start_date) (parse_if_given parse end_date) = Inr True \<longrightarrow>
      (\<exists>t. is_error_text t \<and>
           (\<forall>db. tool_get_expenses parse ctx cat start_date end_date kw db =
                   (Inr (Reply_text t), db)) \<and>
           (caller ctx \<noteq> None \<longrightarrow> t = ''Error: Start date cannot be after end date.'')))"
proof (cases "caller ctx")
  case None
  then have "\<forall>db. tool_get_expenses parse ctx cat start_date end_date kw db =
      (Inr (Reply_text ''Error: User ID is missing.''), db)"
    by (simp add: tool_get_expenses_def)
  moreover have "is_error_text ''Error: User ID is missing.''"
    by (simp add: is_error_text_def)
  ultimately show ?thesis using None by blast
next
  case (Some u)
  show ?thesis
  proof (intro conjI impI)
    assume bad: "truthy start_date \<and> parse_if_given parse start_date = None \<or>
      truthy end_date \<and> parse_if_given parse end_date = None"
    let ?t = "if truthy start_date \<and> parse_if_given parse start_date = None
                   then ''Error: Unable to parse the start date '' @ quote (text_of start_date) @
                        ''. Please use a valid date format.''
                   else ''Error: Unable to parse the end date '' @ quote (text_of end_date) @
                        ''. Please use a valid date format.''"
    have "\<forall>db. tool_get_expenses parse ctx cat start_date end_date kw db = (Inr (Reply_text ?t), db)"
      using Some get_expenses_try_unparsable [OF bad]
      by (simp add: tool_get_expenses_def)
    moreover have "is_error_text ?t"
      by (simp add: is_error_text_def)
    ultimately show "\<exists>t. is_error_text t \<and>
           (\<forall>db. tool_get_expenses parse ctx cat start_date end_date kw db =
                   (Inr (Reply_text t), db)) \<and>
           (caller ctx \<noteq> None \<longrightarrow> t = ?t)"
      by blast
  next
    assume gt: "start_after_end (parse_if_given parse start_date) (parse_if_given parse end_date) = Inr True"
    have "\<forall>db. tool_get_expenses parse ctx cat start_date end_date kw db =
        (Inr (Reply_text ''Error: Start date cannot be after end date.''), db)"
      using Some get_expenses_try_start_after_end [OF gt]
      by (simp add: tool_get_expenses_def)
    moreover have "is_error_text ''Error: Start date cannot be after end date.''"
      by (simp add: is_error_text_def)
    ultimately show "\<exists>t. is_error_text t \<and>
           (\<forall>db. tool_get_expenses parse ctx cat start_date end_date kw db =
                   (Inr (Reply_text t), db)) \<and>
           (caller ctx \<noteq> None \<longrightarrow> t = ''Error: Start date cannot be after end date.'')"
      by blast
  qed
qed

lemma january_facts:
  "parse_if_given january (Some ''next blursday'') = None"
  "parse_if_given january (Some ''25 January'') = Some \<lparr>wall = 25, utcoffset = None\<rparr>"
  "parse_if_given january (Some ''1 January'') = Some \<lparr>wall = 1, utcoffset = None\<rparr>"
  by (simp_all add: parse_if_given_def january_def)

theorem query_date_validation_witness:
  "tool_get_expenses january (Some 1) None (Some ''next blursday'') None None travel_db =
     (Inr (Reply_text (''Error: Unable to parse the start date '' @ quote ''next blursday'' @
                       ''. Please use a valid date format.'')), travel_db) \<and>
   tool_get_expenses january (Some 1) None (Some ''25 January'') (Some ''1 January'') None travel_db =
     (Inr (Reply_text ''Error: Start date cannot be after end date.''), travel_db)"
proof -
  have bad: "truthy (Some ''next blursday'') \<and> parse_if_given january (Some ''next blursday'') = None"
    by (simp add: truthy_def january_facts)
  have gt: "start_after_end (parse_if_given january (Some ''25 January''))
      (parse_if_given january (Some ''1 January'')) = Inr True"
    by (simp add: january_facts start_after_end_def dt_gt_def)
  have c: "caller (Some 1) \<noteq> None"
    by (simp add: caller_def)
  from query_date_validation [of "Some ''next blursday''" january None "Some 1" None None] bad c
  have 1: "tool_get_expenses january (Some 1) None (Some ''next blursday'') None None travel_db =
     (Inr (Reply_text (''Error: Unable to parse the start date '' @ quote ''next blursday'' @
                       ''. Please use a valid date format.'')), travel_db)"
    by (auto simp: text_of_def)
  from query_date_validation [of "Some ''25 January''" january "Some ''1 January''" "Some 1" None None] gt c
  have 2: "tool_get_expenses january (Some 1) None (Some ''25 January'') (Some ''1 January'') None travel_db =
     (Inr (Reply_text ''Error: Start date cannot be after end date.''), travel_db)"
    by auto
  from 1 2 show ?thesis by simp
qed

section \<open>The identity context around a turn\<close>

lemma query_agent_process:
  "snd (query_agent graph u text p) =
     (snd (graph [HumanMessage None text] (p\<lparr>current_user_id := Some u\<rparr>)))
       \<lparr>current_user_id := current_user_id p\<rparr>"
  by (simp add: query_agent_def Let_def split: prod.splits sum.splits)

text \<open>
  C5. For every query the turn runs on the process in which \<open>current_user_id\<close> holds
  the caller's id, and whatever the turn does, returning a state or raising, the
  endpoint leaves \<open>current_user_id\<close> as it found it. A turn that raises at once leaves
  the whole process as it was. After a query that started without an identity, a tool
  called without setting one reports the missing identity.
\<close>

theorem identity_context_set_and_restored:
  "snd (query_agent graph u text p) =
     (snd (graph [HumanMessage None text] (p\<lparr>current_user_id := Some u\<rparr>)))
       \<lparr>current_user_id := current_user_id p\<rparr> \<and>
   current_user_id (snd (query_agent graph u text p)) = current_user_id p \<and>
   query_agent (\<lambda>ms q. (Inl e, q)) u text p = (Inl (HTTPException 500 (str_exn e)), p) \<and>
   tool_get_expenses parse
       (current_user_id (snd (query_agent graph u text (p\<lparr>current_user_id := None\<rparr>))))
       cat start_date end_date kw db =
     (Inr (Reply_text ''Error: User ID is missing.''), db)"
  by (simp add: query_agent_process tool_get_expenses_def caller_None)
     (simp add: query_agent_def)

section \<open>Transitions after the assistant\<close>

lemma tools_condition_nonempty:
  "messages st \<noteq> [] \<Longrightarrow>
   tools_condition st = Inr (if requests_tool_calls st then Tools else END)"
  by (cases "messages st" rule: rev_cases)
     (auto simp: tools_condition_def requests_tool_calls_def split: message.splits)

lemma next_nodes_Assistant:
  assumes "messages st \<noteq> []"
  shows "next_nodes Assistant st =
     Inr ((if requests_tool_calls st then [Tools] else []) @
          (if length (messages st) > 6 then [Summarize_conversation] else []))"
  by (simp add: next_nodes_def destinations_def tools_condition_nonempty [OF assms]
      should_continue_def)

text \<open>
  C4 as stated fails: in \<open>busy_state\<close> the assistant's response requests a tool call and
  seven messages are retained, and the next step holds the summarize node beside the
  tools node.
\<close>

theorem tool_calls_and_long_history_counterexample:
  "requests_tool_calls busy_state \<and>
   next_nodes Assistant busy_state = Inr [Tools, Summarize_conversation]"
  by (simp add: next_nodes_def destinations_def tools_condition_def should_continue_def
      requests_tool_calls_def busy_state_def six_messages_def)

text \<open>
  C4, amended. After an assistant step (the history then holds its response) the next
  step holds the tools node exactly when the response requests a tool call, and the
  summarize node exactly when more than 6 messages are retained, whether or not a tool
  call is requested; no other node leads to the summarize node or to the tools node.
\<close>

theorem summarize_entered_by_length:
  "(messages st \<noteq> [] \<longrightarrow>
      next_nodes Assistant st =
        Inr ((if requests_tool_calls st then [Tools] else []) @
             (if length (messages st) > 6 then [Summarize_conversation] else []))) \<and>
   (next_nodes n st = Inr ns \<longrightarrow>
      (Summarize_conversation \<in> set ns \<longleftrightarrow> n = Assistant \<and> length (messages st) > 6) \<and>
      (Tools \<in> set ns \<longleftrightarrow> n = Assistant \<and> requests_tool_calls st))"
proof (intro conjI impI)
  assume "messages st \<noteq> []"
  then show "next_nodes Assistant st =
        Inr ((if requests_tool_calls st then [Tools] else []) @
             (if length (messages st) > 6 then [Summarize_conversation] else []))"
    by (rule next_nodes_Assistant)
next
  assume ns: "next_nodes n st = Inr ns"
  show "Summarize_conversation \<in> set ns \<longleftrightarrow> n = Assistant \<and> length (messages st) > 6"
  proof (cases "n = Assistant")
    case True
    with ns have "messages st \<noteq> []"
      by (auto simp: next_nodes_def destinations_def tools_condition_def split: if_splits)
    from next_nodes_Assistant [OF this] ns True show ?thesis by auto
  next
    case False
    with ns show ?thesis
      by (cases n) (auto simp: next_nodes_def destinations_def)
  qed
  show "Tools \<in> set ns \<longleftrightarrow> n = Assistant \<and> requests_tool_calls st"
  proof (cases "n = Assistant")
    case True
    with ns have "messages st \<noteq> []"
      by (auto simp: next_nodes_def destinations_def tools_condition_def split: if_splits)
    from next_nodes_Assistant [OF this] ns True show ?thesis by auto
  next
    case False
    with ns show ?thesis
      by (cases n) (auto simp: next_nodes_def destinations_def)
  qed
qed

theorem summarize_entered_by_length_witness:
  "messages idle_state \<noteq> [] \<and>
   next_nodes Assistant idle_state = Inr [Summarize_conversation] \<and>
   length (messages idle_state) > 6 \<and> \<not> requests_tool_calls idle_state"
proof -
  have ne: "messages idle_state \<noteq> []"
    by (simp add: idle_state_def)
  have len: "length (messages idle_state) > 6"
    by (simp add: idle_state_def six_messages_def)
  have calls: "\<not> requests_tool_calls idle_state"
    by (simp add: requests_tool_calls_def idle_state_def six_messages_def)
  from summarize_entered_by_length [of idle_state Assistant "[Summarize_conversation]"]
    ne len calls
  have n: "next_nodes Assistant idle_state = Inr [Summarize_conversation]"
    by simp
  from summarize_entered_by_length [of idle_state Assistant "[Summarize_conversation]"] n
  have "Summarize_conversation \<in> set [Summarize_conversation] \<longleftrightarrow>
      Assistant = Assistant \<and> length (messages idle_state) > 6"
    by blast
  with ne n calls show ?thesis by simp
qed

section \<open>Summarization\<close>

lemma assign_ids_present:
  "\<forall>m \<in> set ms. msg_id m \<noteq> None \<Longrightarrow> assign_ids uuid k ms = (ms, k)"
  by (induction ms arbitrary: k) (auto split: option.splits)

lemma left_idx_by_id_known:
  assumes "i \<in> msg_id ` set left"
  shows "\<exists>k. left_idx_by_id left i = Some k"
proof -
  from assms obtain k where "k < length left" "msg_id (left ! k) = i"
    by (auto simp: in_set_conv_nth)
  then have "k \<in> set (filter (\<lambda>k. msg_id (left ! k) = i) (rev [0..<length left]))"
    by simp
  then have "filter (\<lambda>k. msg_id (left ! k) = i) (rev [0..<length left]) \<noteq> []"
    by (metis empty_iff empty_set)
  then show ?thesis
    by (auto simp: left_idx_by_id_def split: list.splits)
qed

lemma merge_messages_removals:
  "set ids \<subseteq> msg_id ` set left \<Longrightarrow>
   merge_messages left merged acc (map RemoveMessage ids) = Inr (merged, rev ids @ acc)"
proof (induction ids arbitrary: acc)
  case Nil
  then show ?case by simp
next
  case (Cons i ids)
  then obtain k where "left_idx_by_id left i = Some k"
    using left_idx_by_id_known [of i left] by auto
  with Cons show ?case by simp
qed

lemma filter_removed_prefix:
  assumes "distinct (map f xs)"
  shows "filter (\<lambda>m. f m \<notin> set (map f (take n xs))) xs = drop n xs"
proof -
  have d: "distinct (map f (take n xs) @ map f (drop n xs))"
    using assms by (metis append_take_drop_id map_append)
  have 1: "filter (\<lambda>m. f m \<notin> set (map f (take n xs))) (take n xs) = []"
    by (auto simp: filter_empty_conv)
  have 2: "filter (\<lambda>m. f m \<notin> set (map f (take n xs))) (drop n xs) = drop n xs"
    using d by (auto simp: filter_id_conv)
  have "filter (\<lambda>m. f m \<notin> set (map f (take n xs))) (take n xs @ drop n xs) = drop n xs"
    unfolding filter_append 1 2 by simp
  then show ?thesis by simp
qed

lemma add_messages_removals:
  assumes ids: "\<forall>m \<in> set ms. msg_id m \<noteq> None" and dist: "distinct (map msg_id ms)"
  shows "add_messages uuid ms (map (\<lambda>m. RemoveMessage (msg_id m)) (take n ms)) = Inr (drop n ms)"
proof -
  let ?right = "map (\<lambda>m. RemoveMessage (msg_id m)) (take n ms)"
  have r: "\<forall>m \<in> set ?right. msg_id m \<noteq> None"
    using ids by (auto dest: in_set_takeD)
  have sub: "set (map msg_id (take n ms)) \<subseteq> msg_id ` set ms"
    by (auto dest: in_set_takeD)
  have right: "?right = map RemoveMessage (map msg_id (take n ms))"
    by simp
  have m: "merge_messages ms ms [] ?right = Inr (ms, rev (map msg_id (take n ms)))"
    unfolding right using merge_messages_removals [OF sub, of ms "[]"] by simp
  show ?thesis
    using filter_removed_prefix [OF dist, of n]
    by (simp add: add_messages_def assign_ids_present [OF ids] assign_ids_present [OF r] m
        del: map_map)
qed

text \<open>
  C8. When the model call of the summarize step succeeds on a state whose messages carry
  distinct identifiers (as the reducer leaves them), the step returns the model's text as
  the new summary and a removal for every message but the last two; applied to the state
  this replaces the summary, whatever it was, and retains exactly the last two messages
  of the history.
\<close>

theorem summarize_overwrites_and_prunes:
  assumes "llm (messages st @ [HumanMessage None (summary_message st)]) = Inr response"
    and "\<forall>m \<in> set (messages st). msg_id m \<noteq> None"
    and "distinct (map msg_id (messages st))"
  shows "\<exists>u. summarize_conversation llm st = Inr u \<and>
     new_summary u = Some (content response) \<and>
     new_messages u = map (\<lambda>m. RemoveMessage (msg_id m))
                          (take (length (messages st) - 2) (messages st)) \<and>
     apply_update uuid st u =
       Inr \<lparr>messages = drop (length (messages st) - 2) (messages st),
            summary = Some (content response)\<rparr> \<and>
     length (drop (length (messages st) - 2) (messages st)) = min 2 (length (messages st))"
  using assms
  by (simp add: summarize_conversation_def apply_update_def add_messages_removals)

theorem summarize_overwrites_and_prunes_witness:
  "summarizer (messages idle_state @ [HumanMessage None (summary_message idle_state)]) =
     Inr (AIMessage (Some ''s1'') ''The user logged a bike and asked about travel.'' []) \<and>
   None \<notin> set (map msg_id (messages idle_state)) \<and>
   distinct (map msg_id (messages idle_state)) \<and>
   (\<exists>u. summarize_conversation summarizer idle_state = Inr u \<and>
        apply_update (\<lambda>k. ''fresh'') idle_state u =
          Inr \<lparr>messages = [AIMessage (Some ''m6'') ''Logged.'' [],
                            AIMessage (Some ''m7'') ''You spent 120.00 on travel.'' []],
               summary = Some ''The user logged a bike and asked about travel.''\<rparr>)"
proof -
  have a: "summarizer (messages idle_state @ [HumanMessage None (summary_message idle_state)]) =
     Inr (AIMessage (Some ''s1'') ''The user logged a bike and asked about travel.'' [])"
    by (simp add: summarizer_def)
  have b: "\<forall>m \<in> set (messages idle_state). msg_id m \<noteq> None"
    by (simp add: idle_state_def six_messages_def)
  have c: "distinct (map msg_id (messages idle_state))"
    by (simp add: idle_state_def six_messages_def)
  have d: "drop (length (messages idle_state) - 2) (messages idle_state) =
     [AIMessage (Some ''m6'') ''Logged.'' [],
      AIMessage (Some ''m7'') ''You spent 120.00 on travel.'' []]"
    by (simp add: idle_state_def six_messages_def)
  have b': "None \<notin> set (map msg_id (messages idle_state))"
    by (simp add: idle_state_def six_messages_def)
  from summarize_overwrites_and_prunes
         [of summarizer idle_state
             "AIMessage (Some ''s1'') ''The user logged a bike and asked about travel.'' []"
             "\<lambda>k. ''fresh''"] a b b' c d
  show ?thesis by auto
qed

section \<open>Pattern matching and substrings\<close>

lemma starts_with_append: "starts_with s p \<longleftrightarrow> (\<exists>t. s = p @ t)"
  by (induction s p rule: starts_with.induct) auto

lemma contains_append: "contains s p \<longleftrightarrow> (\<exists>a b. s = a @ p @ b)"
proof (induction s)
  case Nil
  then show ?case by simp
next
  case (Cons c cs)
  show ?case
  proof
    assume "contains (c # cs) p"
    then consider "starts_with (c # cs) p" | "contains cs p" by auto
    then show "\<exists>a b. c # cs = a @ p @ b"
    proof cases
      case 1
      then obtain t where "c # cs = p @ t" by (auto simp: starts_with_append)
      then have "c # cs = [] @ p @ t" by simp
      then show ?thesis by blast
    next
      case 2
      with Cons obtain a b where "cs = a @ p @ b" by auto
      then have "c # cs = (c # a) @ p @ b" by simp
      then show ?thesis by blast
    qed
  next
    assume "\<exists>a b. c # cs = a @ p @ b"
    then obtain a b where ab: "c # cs = a @ p @ b" by auto
    show "contains (c # cs) p"
    proof (cases a)
      case Nil
      with ab have "starts_with (c # cs) p" by (auto simp: starts_with_append)
      then show ?thesis by simp
    next
      case (Cons x a')
      with ab have "cs = a' @ p @ b" by simp
      with Cons.IH have "contains cs p" by blast
      then show ?thesis by simp
    qed
  qed
qed

lemma like_percent_skip:
  assumes "esc \<noteq> Some (CHR ''%'')" and "like esc ps s"
  shows "like esc (CHR ''%'' # ps) (x @ s)"
  using assms by (induction x) auto

lemma like_percent_only:
  assumes "esc \<noteq> Some (CHR ''%'')"
  shows "like esc [CHR ''%''] s"
  using assms by (induction s) auto

lemma like_append:
  assumes "\<forall>c \<in> set p. Some c \<noteq> esc"
  shows "like esc p s \<Longrightarrow> like esc q t \<Longrightarrow> like esc (p @ q) (s @ t)"
  using assms
proof (induction esc p s rule: like.induct)
  case (1 esc s)
  then show ?case by simp
next
  case (2 esc p ps s)
  then show ?case
    by (cases s) (auto split: if_splits)
qed

lemma like_self:
  assumes "\<forall>c \<in> set p. Some c \<noteq> esc" and "esc \<noteq> Some (CHR ''%'')"
  shows "like esc p p"
  using assms
proof (induction p)
  case Nil
  then show ?case by simp
next
  case (Cons c p)
  then have ih: "like esc p p" by simp
  show ?case
  proof (cases "c = CHR ''%''")
    case True
    from like_percent_skip [OF Cons.prems(2) ih, of "[CHR ''%'']"] True show ?thesis by simp
  next
    case False
    with Cons.prems ih show ?thesis by auto
  qed
qed

lemma like_infix_matches:
  assumes "\<forall>c \<in> set p. Some c \<noteq> esc" and "esc \<noteq> Some (CHR ''%'')"
  shows "like esc (CHR ''%'' # p @ [CHR ''%'']) (a @ p @ b)"
proof -
  have "like esc (p @ [CHR ''%'']) (p @ b)"
    using like_append [OF assms(1) like_self [OF assms] like_percent_only [OF assms(2)]] .
  from like_percent_skip [OF assms(2) this] show ?thesis by simp
qed

lemma like_plain_prefix:
  assumes "\<forall>c \<in> set p. Some c \<noteq> esc \<and> c \<noteq> CHR ''%'' \<and> c \<noteq> CHR ''_''"
    and "esc \<noteq> Some (CHR ''%'')"
  shows "like esc (p @ [CHR ''%'']) s = starts_with s p"
  using assms
proof (induction s p rule: starts_with.induct)
  case (1 s)
  then show ?case by (simp add: like_percent_only del: like.simps)
next
  case (2 p ps)
  then show ?case by auto
next
  case (3 c cs p ps)
  then show ?case by auto
qed

lemma like_plain_infix:
  assumes "\<forall>c \<in> set p. Some c \<noteq> esc \<and> c \<noteq> CHR ''%'' \<and> c \<noteq> CHR ''_''"
    and "esc \<noteq> Some (CHR ''%'')"
  shows "like esc (CHR ''%'' # p @ [CHR ''%'']) s = contains s p"
proof (induction s)
  case Nil
  from like_plain_prefix [OF assms, of "[]"] assms(2) show ?case
    by (cases p) auto
next
  case (Cons c cs)
  from like_plain_prefix [OF assms, of "c # cs"] assms(2) Cons show ?case
    by auto
qed

lemma lower_append: "lower (a @ b) = lower a @ lower b"
  by (simp add: lower_def)

lemma of_char_lower_char:
  "of_char (lower_char c) = (if 65 \<le> (of_char c :: nat) \<and> (of_char c :: nat) \<le> 90
                             then of_char c + 32 else (of_char c :: nat))"
  by (simp add: lower_char_def Let_def)

lemma lower_char_special:
  assumes "(of_char x :: nat) < 65 \<or> (90 < (of_char x :: nat) \<and> (of_char x :: nat) < 97)"
  shows "lower_char c = x \<longleftrightarrow> c = x"
proof
  assume l: "lower_char c = x"
  show "c = x"
  proof (rule ccontr)
    assume "c \<noteq> x"
    with l have up: "65 \<le> (of_char c :: nat) \<and> (of_char c :: nat) \<le> 90"
      by (auto simp: lower_char_def Let_def split: if_splits)
    from l have "(of_char x :: nat) = of_char (lower_char c)" by simp
    with up have "(of_char x :: nat) = of_char c + 32"
      by (simp add: of_char_lower_char)
    with up assms show False by arith
  qed
next
  assume "c = x"
  with assms show "lower_char c = x"
    by (auto simp: lower_char_def Let_def)
qed

lemma lower_char_percent: "lower_char c = CHR ''%'' \<longleftrightarrow> c = CHR ''%''"
  by (rule lower_char_special) simp

lemma lower_char_underscore: "lower_char c = CHR ''_'' \<longleftrightarrow> c = CHR ''_''"
  by (rule lower_char_special) simp

lemma lower_char_backslash: "lower_char c = CHR 0x5C \<longleftrightarrow> c = CHR 0x5C"
  by (rule lower_char_special) simp

lemma special_in_lower:
  "CHR ''%'' \<in> set (lower c) \<longleftrightarrow> CHR ''%'' \<in> set c"
  "CHR ''_'' \<in> set (lower c) \<longleftrightarrow> CHR ''_'' \<in> set c"
  "CHR 0x5C \<in> set (lower c) \<longleftrightarrow> CHR 0x5C \<in> set c"
proof -
  have "x \<in> set (lower c) \<longleftrightarrow> (\<exists>y \<in> set c. lower_char y = x)" for x
    by (auto simp: lower_def)
  then show "CHR ''%'' \<in> set (lower c) \<longleftrightarrow> CHR ''%'' \<in> set c"
    "CHR ''_'' \<in> set (lower c) \<longleftrightarrow> CHR ''_'' \<in> set c"
    "CHR 0x5C \<in> set (lower c) \<longleftrightarrow> CHR 0x5C \<in> set c"
    by (simp_all add: lower_char_percent lower_char_underscore lower_char_backslash)
qed

lemma lower_pattern: "lower (CHR ''%'' # c @ [CHR ''%'']) = CHR ''%'' # lower c @ [CHR ''%'']"
  by (simp add: lower_def lower_char_percent)

lemma like_escape_not_percent: "like_escape db \<noteq> Some (CHR ''%'')"
  by (simp add: like_escape_def)

lemma ilike_plain:
  assumes "plain_filter db c"
  shows "ilike (like_escape db) s (''%'' @ c @ ''%'') = contains (lower s) (lower c)"
proof -
  have "\<forall>x \<in> set (lower c). Some x \<noteq> like_escape db \<and> x \<noteq> CHR ''%'' \<and> x \<noteq> CHR ''_''"
    using assms special_in_lower [of c]
    by (auto simp: plain_filter_def like_escape_def split: if_splits)
  from like_plain_infix [OF this like_escape_not_percent] show ?thesis
    by (simp add: ilike_def lower_pattern del: like.simps)
qed

lemma ilike_infix:
  assumes "if backslash_escape db then CHR 0x5C \<notin> set c else True"
    and "contains (lower s) (lower c)"
  shows "ilike (like_escape db) s (''%'' @ c @ ''%'')"
proof -
  have esc: "\<forall>x \<in> set (lower c). Some x \<noteq> like_escape db"
    using assms(1) special_in_lower(3) [of c]
    by (auto simp: like_escape_def split: if_splits)
  from assms(2) obtain a b where "lower s = a @ lower c @ b"
    by (auto simp: contains_append)
  with like_infix_matches [OF esc like_escape_not_percent, of a b] show ?thesis
    by (simp add: ilike_def lower_pattern del: like.simps)
qed

lemma contains_lower: "contains s p \<Longrightarrow> contains (lower s) (lower p)"
  unfolding contains_append by (metis lower_append)

lemma contains_self: "contains s s"
  unfolding contains_append by (metis append_Nil append_Nil2)

section \<open>Scope of the tools\<close>

lemma select_expenses_member:
  assumes "r \<in> set (select_expenses db u cat kw ps pe)"
  shows "r \<in> set (expenses db) \<and> e_user_id r = u \<and> category_filter (like_escape db) cat r"
  using assms by (simp add: select_expenses_def)

lemma category_filter_plain:
  assumes "category_filter (like_escape db) (Some c) r" and "c \<noteq> []" and "plain_filter db c"
  shows "contains (lower (e_category r)) (lower c)"
  using assms ilike_plain [OF assms(3), of "e_category r"]
  by (simp add: category_filter_def)

lemma get_expenses_try_listing:
  assumes "get_expenses_try parse u cat sd ed kw db = Inr (Reply_listing c found tot)"
  shows "\<exists>ps pe. found = select_expenses db u cat kw ps pe"
  using assms
  by (auto simp: get_expenses_try_def Let_def split: if_splits sum.splits)

lemma tool_get_expenses_db: "snd (tool_get_expenses parse ctx cat sd ed kw db) = db"
  by (simp add: tool_get_expenses_def split: option.splits sum.splits)

lemma tool_get_expenses_listing:
  assumes "caller ctx = Some u"
    and "tool_get_expenses parse ctx cat sd ed kw db = (Inr (Reply_listing c found tot), db')"
  shows "\<exists>ps pe. found = select_expenses db u cat kw ps pe"
proof -
  from assms have "get_expenses_try parse u cat sd ed kw db = Inr (Reply_listing c found tot)"
    by (auto simp: tool_get_expenses_def split: sum.splits)
  then show ?thesis by (rule get_expenses_try_listing)
qed

lemma rows_of_others_create:
  assumes "caller ctx = Some u"
  shows "rows_of_others u (snd (tool_create_expenses now ctx a c d db)) = rows_of_others u db"
  using assms
  by (auto simp: tool_create_expenses_def create_expenses_try_def rows_of_others_def Let_def
      split: option.splits)

lemma created_row_owner:
  assumes "caller ctx = Some u"
    and "fst (tool_create_expenses now ctx a c d db) = Inr (Status_success m row)"
  shows "e_user_id row = u"
  using assms
  by (auto simp: tool_create_expenses_def create_expenses_try_def Let_def
      split: option.splits if_splits)

lemma from_orm_owner:
  "from_orm (updated_object upd e) = Inr v \<Longrightarrow> e_user_id v = e_user_id e"
proof -
  have "o_user_id (foldl setattr ob vs) = o_user_id ob" for ob vs
  proof (induction vs arbitrary: ob)
    case Nil
    show ?case by simp
  next
    case (Cons v vs)
    then show ?case by (cases v) simp_all
  qed
  then have "o_user_id (updated_object upd e) = e_user_id e"
    by (simp add: updated_object_def orm_of_def)
  moreover assume "from_orm (updated_object upd e) = Inr v"
  ultimately show ?thesis
    by (auto simp: from_orm_def split: option.splits)
qed

lemma commit_update_owner: "e_user_id (commit_update upd e) = e_user_id e"
  by (auto simp: commit_update_def store_row_def dest: from_orm_owner split: sum.splits)

lemma update_loop_owner:
  "update_loop upd es = Inr vs \<Longrightarrow> \<forall>e \<in> set es. e_user_id e = u \<Longrightarrow>
   \<forall>v \<in> set vs. e_user_id v = u"
proof (induction es arbitrary: vs)
  case Nil
  then show ?case by simp
next
  case (Cons e es)
  then show ?case
    by (auto split: sum.splits dest: from_orm_owner)
qed

lemma filter_others_map:
  assumes "\<And>e. e_user_id (f e) = e_user_id e" and "\<And>e. e_user_id e \<noteq> u \<Longrightarrow> f e = e"
  shows "filter (\<lambda>e. e_user_id e \<noteq> u) (map f es) = filter (\<lambda>e. e_user_id e \<noteq> u) es"
  using assms by (induction es) auto

lemma rows_of_others_update_controller:
  "rows_of_others u (snd (update_expenses_by_category db c upd u)) = rows_of_others u db"
proof -
  let ?f = "\<lambda>e. if in_category c u e then commit_update upd e else e"
  have "filter (\<lambda>e. e_user_id e \<noteq> u) (map ?f (expenses db)) =
      filter (\<lambda>e. e_user_id e \<noteq> u) (expenses db)"
    by (rule filter_others_map) (auto simp: commit_update_owner in_category_def)
  then show ?thesis
    by (simp add: update_expenses_by_category_def rows_of_others_def Let_def split: sum.splits)
qed

lemma updated_rows_owner_controller:
  assumes "fst (update_expenses_by_category db c upd u) = Inr rows"
  shows "\<forall>r \<in> set rows. e_user_id r = u"
proof -
  from assms have "update_loop upd (filter (in_category c u) (expenses db)) = Inr rows"
    by (auto simp: update_expenses_by_category_def Let_def split: if_splits sum.splits)
  moreover have "\<forall>e \<in> set (filter (in_category c u) (expenses db)). e_user_id e = u"
    by (simp add: in_category_def)
  ultimately show ?thesis by (rule update_loop_owner)
qed

lemma update_expenses_try_cases:
  "update_expenses_try parse u c d a t db =
     (Inr (Status_error (''Unable to parse the date '' @ quote (text_of t) @ ''.'')), db) \<or>
   update_expenses_try parse u c d a t db =
     (Inl (ValidationError ''ExpenseUpdate'' [''date'']), db) \<or>
   update_expenses_try parse u c d a t db = (Inr (Status_error ''User not found.''), db) \<or>
   (\<exists>upd. (\<exists>e. update_expenses_by_category db c upd u = (Inl e, db) \<and>
              update_expenses_try parse u c d a t db = (Inl e, db)) \<or>
          (\<exists>rows db'. update_expenses_by_category db c upd u = (Inr rows, db') \<and>
              update_expenses_try parse u c d a t db =
                (Inr (Status_success (''Updated '' @ str_nat (length rows) @
                        '' expenses in category '' @ quote c @ ''.'') rows), db')))"
proof (cases "formatted_date parse t")
  case (Inl e)
  then have "e = ValidationError ''ExpenseUpdate'' [''date'']"
    by (auto simp: formatted_date_def split: if_splits option.splits)
  with Inl show ?thesis
    by (simp add: update_expenses_try_def)
next
  case (Inr formatted)
  let ?upd = "ExpenseUpdate d a (Some c) formatted"
  obtain r db' where r: "update_expenses_by_category db c ?upd u = (r, db')"
    by (cases "update_expenses_by_category db c ?upd u") auto
  have rolled: "db' = db" if "r = Inl e" for e
    using r that
    by (auto simp: update_expenses_by_category_def Let_def split: if_splits sum.splits)
  show ?thesis
  proof (cases r)
    case (Inl e)
    with r rolled [OF Inl] Inr show ?thesis
      by (simp add: update_expenses_try_def Let_def) blast
  next
    case rows: (Inr rows)
    with r Inr show ?thesis
      by (simp add: update_expenses_try_def Let_def) blast
  qed
qed

lemma rows_of_others_update:
  assumes "caller ctx = Some u"
  shows "rows_of_others u (snd (tool_update_expenses parse ctx c d a t db)) = rows_of_others u db"
proof -
  have "rows_of_others u (snd (update_expenses_try parse u c d a t db)) = rows_of_others u db"
    using update_expenses_try_cases [of parse u c d a t db]
      rows_of_others_update_controller [of u db c]
    by (metis snd_conv)
  with assms show ?thesis
    by (auto simp: tool_update_expenses_def split: prod.splits sum.splits)
qed

lemma updated_rows_owner:
  assumes "caller ctx = Some u"
    and "fst (tool_update_expenses parse ctx c d a t db) = Inr (Status_success m rows)"
  shows "\<forall>r \<in> set rows. e_user_id r = u"
proof -
  from assms have "fst (update_expenses_try parse u c d a t db) = Inr (Status_success m rows)"
    by (auto simp: tool_update_expenses_def tool_except_NameError split: prod.splits sum.splits)
  with update_expenses_try_cases [of parse u c d a t db]
  obtain upd db' where "update_expenses_by_category db c upd u = (Inr rows, db')"
    by auto
  then have "fst (update_expenses_by_category db c upd u) = Inr rows" by simp
  then show ?thesis by (rule updated_rows_owner_controller)
qed

lemma rows_of_others_delete_controller:
  "rows_of_others u (snd (delete_expenses_by_category db c u)) = rows_of_others u db"
proof -
  have "filter (\<lambda>e. e_user_id e \<noteq> u) (filter (\<lambda>e. \<not> in_category c u e) (expenses db)) =
      filter (\<lambda>e. e_user_id e \<noteq> u) (expenses db)"
    by (auto simp: in_category_def intro: filter_cong)
  then show ?thesis
    by (simp add: delete_expenses_by_category_def rows_of_others_def Let_def)
qed

lemma rows_of_others_delete:
  assumes "caller ctx = Some u"
  shows "rows_of_others u (snd (tool_delete_expenses ctx c db)) = rows_of_others u db"
proof -
  have "rows_of_others u (snd (delete_expenses_try u c db)) = rows_of_others u db"
    using rows_of_others_delete_controller [of u db c]
    by (auto simp: delete_expenses_try_def split: prod.splits sum.splits)
  with assms show ?thesis
    by (auto simp: tool_delete_expenses_def split: prod.splits sum.splits)
qed

section \<open>Category filters and ownership\<close>

lemma lower_Travel: "lower ''Travel'' = ''travel''"
  by code_simp

lemma lower_Tr_vel: "lower ''Tr_vel'' = ''tr_vel''"
  by code_simp

lemma lower_trav: "lower ''trav'' = ''trav''"
  by code_simp

lemma travel_db_fields:
  "expenses travel_db = [flight]" "users travel_db = [1]" "like_escape travel_db = None"
  by (simp_all add: travel_db_def like_escape_def)

lemma shared_db_fields:
  "expenses shared_db = [flight, taxi]" "users shared_db = [1, 2]"
  "like_escape shared_db = Some (CHR 0x5C)" "backslash_escape shared_db"
  by (simp_all add: shared_db_def like_escape_def)

lemma flight_fields:
  "e_user_id flight = 1" "e_category flight = ''Travel''" "e_amount flight = 120"
  by (simp_all add: flight_def)

lemma taxi_fields:
  "e_user_id taxi = 2" "e_category taxi = ''Travel''"
  by (simp_all add: taxi_def)

lemma ilike_Tr_vel: "ilike None ''Travel'' ''%Tr_vel%''"
  by code_simp

lemma not_contains_Tr_vel: "\<not> contains ''travel'' ''tr_vel''"
  by simp

text \<open>
  C3 as stated fails: the filter \<open>Tr_vel\<close> is a pattern whose underscore stands for
  any character, so the query for it returns the flight, whose category \<open>Travel\<close> does
  not contain \<open>tr_vel\<close> in any letter case.
\<close>

theorem wildcard_filter_counterexample:
  "tool_get_expenses no_dates (Some 1) (Some ''Tr_vel'') None None None travel_db =
     (Inr (Reply_listing (Some ''Tr_vel'') [flight] 120), travel_db) \<and>
   \<not> contains (lower (e_category flight)) (lower ''Tr_vel'')"
  using ilike_Tr_vel not_contains_Tr_vel
  by (simp add: tool_get_expenses_def get_expenses_try_def caller_Some1 truthy_def
      parse_if_given_def start_after_end_def select_expenses_def category_filter_def
      description_filter_def date_filter_def total_amount_def travel_db_fields flight_fields
      lower_Travel lower_Tr_vel)

text \<open>
  C3, amended. For a caller with identity \<open>u\<close>: every record a query returns is a
  stored record of \<open>u\<close>, and when the category filter holds no character that the
  pattern language treats specially, the record's category contains the filter, letter
  case ignored; a query changes nothing. Create, bulk update and bulk delete leave the
  records of every other user as they are, whatever their outcome, and the records they
  return belong to \<open>u\<close>.
\<close>

theorem tools_scoped_to_caller:
  assumes "caller ctx = Some u"
  shows "(\<forall>c found tot db'.
            tool_get_expenses parse ctx cat sd ed kw db = (Inr (Reply_listing c found tot), db') \<longrightarrow>
            (\<forall>r \<in> set found.
               r \<in> set (expenses db) \<and> e_user_id r = u \<and>
               (\<forall>f. cat = Some f \<and> f \<noteq> [] \<and> plain_filter db f \<longrightarrow>
                    contains (lower (e_category r)) (lower f)))) \<and>
         snd (tool_get_expenses parse ctx cat sd ed kw db) = db \<and>
         rows_of_others u (snd (tool_create_expenses now ctx a new_category d db)) =
           rows_of_others u db \<and>
         (\<forall>m row. fst (tool_create_expenses now ctx a new_category d db) =
              Inr (Status_success m row) \<longrightarrow> e_user_id row = u) \<and>
         rows_of_others u (snd (tool_update_expenses parse ctx sel nd na nt db)) =
           rows_of_others u db \<and>
         (\<forall>m rows. fst (tool_update_expenses parse ctx sel nd na nt db) =
              Inr (Status_success m rows) \<longrightarrow> (\<forall>r \<in> set rows. e_user_id r = u)) \<and>
         rows_of_others u (snd (tool_delete_expenses ctx sel db)) = rows_of_others u db"
proof (intro conjI allI impI ballI)
  fix c found tot db' r
  assume listing: "tool_get_expenses parse ctx cat sd ed kw db = (Inr (Reply_listing c found tot), db')"
    and r: "r \<in> set found"
  from tool_get_expenses_listing [OF assms listing] r
  obtain ps pe where "r \<in> set (select_expenses db u cat kw ps pe)" by auto
  then have sel: "r \<in> set (expenses db) \<and> e_user_id r = u \<and>
      category_filter (like_escape db) cat r"
    by (rule select_expenses_member)
  from sel show "r \<in> set (expenses db)" by simp
  from sel show "e_user_id r = u" by simp
  fix f
  assume "cat = Some f \<and> f \<noteq> [] \<and> plain_filter db f"
  with sel show "contains (lower (e_category r)) (lower f)"
    by (auto intro: category_filter_plain)
next
  show "snd (tool_get_expenses parse ctx cat sd ed kw db) = db"
    by (rule tool_get_expenses_db)
next
  show "rows_of_others u (snd (tool_create_expenses now ctx a new_category d db)) =
      rows_of_others u db"
    by (rule rows_of_others_create [OF assms])
next
  fix m row
  assume "fst (tool_create_expenses now ctx a new_category d db) = Inr (Status_success m row)"
  with assms show "e_user_id row = u" by (rule created_row_owner)
next
  show "rows_of_others u (snd (tool_update_expenses parse ctx sel nd na nt db)) =
      rows_of_others u db"
    by (rule rows_of_others_update [OF assms])
next
  fix m rows r
  assume "fst (tool_update_expenses parse ctx sel nd na nt db) = Inr (Status_success m rows)"
    and "r \<in> set rows"
  with updated_rows_owner [OF assms] show "e_user_id r = u" by blast
next
  show "rows_of_others u (snd (tool_delete_expenses ctx sel db)) = rows_of_others u db"
    by (rule rows_of_others_delete [OF assms])
qed

theorem tools_scoped_to_caller_witness:
  "caller (Some 1) = Some 1 \<and>
   tool_get_expenses no_dates (Some 1) (Some ''trav'') None None None shared_db =
     (Inr (Reply_listing (Some ''trav'') [flight] 120), shared_db) \<and>
   plain_filter shared_db ''trav'' \<and> flight \<in> set (expenses shared_db) \<and>
   e_user_id flight = 1 \<and> contains (lower (e_category flight)) (lower ''trav'') \<and>
   rows_of_others 1 (snd (tool_delete_expenses (Some 1) ''Travel'' shared_db)) = [taxi]"
proof -
  have plain: "plain_filter shared_db ''trav''"
    by (simp add: plain_filter_def)
  have member: "flight \<in> set (expenses shared_db)"
    by (simp add: shared_db_fields)
  have cat: "category_filter (Some (CHR 0x5C)) (Some ''trav'') x =
      contains (lower (e_category x)) ''trav''" for x
    using ilike_plain [OF plain, of "e_category x"]
    by (simp add: category_filter_def lower_trav shared_db_fields)
  have listing: "tool_get_expenses no_dates (Some 1) (Some ''trav'') None None None shared_db =
     (Inr (Reply_listing (Some ''trav'') [flight] 120), shared_db)"
    by (simp add: tool_get_expenses_def get_expenses_try_def caller_Some1 truthy_def
      parse_if_given_def start_after_end_def select_expenses_def cat
      description_filter_def date_filter_def total_amount_def shared_db_fields flight_fields
      taxi_fields lower_Travel)
  have others: "rows_of_others 1 shared_db = [taxi]"
    by (simp add: rows_of_others_def shared_db_fields flight_fields taxi_fields)
  from tools_scoped_to_caller [OF caller_Some1, of no_dates "Some ''trav''" None None None
      shared_db _ _ _ _ "''Travel''"] listing plain others member
  show ?thesis
    by (auto simp: caller_Some1)
qed

section \<open>Create, then query\<close>

lemma lower_Food: "lower ''Food'' = ''food''"
  by code_simp

lemma plain_Food: "plain_filter db ''Food''"
  by (simp add: plain_filter_def)

lemma category_filter_Food:
  "category_filter (like_escape db) (Some ''Food'') x = contains (lower (e_category x)) ''food''"
  using ilike_plain [OF plain_Food, of db "e_category x"]
  by (simp add: category_filter_def lower_Food)

lemma like_escape_rows [simp]:
  "like_escape (db\<lparr>expenses := es, next_id := n\<rparr>) = like_escape db"
  by (simp add: like_escape_def)

lemma select_Food_none:
  assumes "\<forall>r \<in> set es. e_user_id r = u \<longrightarrow> \<not> contains (lower (e_category r)) ''food''"
  shows "filter (\<lambda>x. e_user_id x = u \<and> category_filter (like_escape db) (Some ''Food'') x) es = []"
  using assms by (auto simp: filter_empty_conv category_filter_Food)

text \<open>
  C9. For a known user \<open>u\<close> none of whose records has a category containing \<open>food\<close>
  in any letter case: creating the expense (50, Food, Groceries) stores a record stamped
  with the current time and owned by \<open>u\<close>, and the query of \<open>u\<close> for category Food on
  the resulting database lists exactly that record, with total 50.
\<close>

theorem create_then_query_roundtrip:
  assumes "caller ctx = Some u" and "u \<in> set (users db)"
    and "\<forall>r \<in> set (expenses db).
           e_user_id r = u \<longrightarrow> \<not> contains (lower (e_category r)) (lower ''Food'')"
  shows "let row = \<lparr>e_id = next_id db, e_amount = 50, e_description = ''Groceries'',
                     e_category = ''Food'', e_date = \<lparr>wall = now, utcoffset = None\<rparr>,
                     e_user_id = u\<rparr>;
             db1 = db\<lparr>expenses := expenses db @ [row], next_id := next_id db + 1\<rparr>
         in tool_create_expenses now ctx 50 ''Food'' (Some ''Groceries'') db =
              (Inr (Status_success ''Expense stored successfully.'' row), db1) \<and>
            tool_get_expenses parse ctx (Some ''Food'') None None None db1 =
              (Inr (Reply_listing (Some ''Food'') [row] 50), db1)"
proof -
  define row where "row = \<lparr>e_id = next_id db, e_amount = 50, e_description = ''Groceries'',
                     e_category = ''Food'', e_date = \<lparr>wall = now, utcoffset = None\<rparr>,
                     e_user_id = u\<rparr>"
  define db1 where "db1 = db\<lparr>expenses := expenses db @ [row], next_id := next_id db + 1\<rparr>"
  have created: "tool_create_expenses now ctx 50 ''Food'' (Some ''Groceries'') db =
      (Inr (Status_success ''Expense stored successfully.'' row), db1)"
    using assms(1,2)
    by (simp add: tool_create_expenses_def create_expenses_try_def row_def db1_def Let_def)
  have old: "filter (\<lambda>x. e_user_id x = u \<and> category_filter (like_escape db) (Some ''Food'') x)
      (expenses db) = []"
    using assms(3) by (intro select_Food_none) (simp add: lower_Food)
  have new: "e_user_id row = u \<and> category_filter (like_escape db) (Some ''Food'') row"
    by (simp add: category_filter_Food) (simp add: row_def lower_Food)
  have sel: "select_expenses db1 u (Some ''Food'') None None None = [row]"
    using old new
    by (simp add: select_expenses_def db1_def description_filter_def date_filter_def)
  have tot: "total_amount [row] = 50"
    by (simp add: total_amount_def row_def)
  have users: "u \<in> set (users db1)"
    using assms(2) by (simp add: db1_def)
  have queried: "tool_get_expenses parse ctx (Some ''Food'') None None None db1 =
      (Inr (Reply_listing (Some ''Food'') [row] 50), db1)"
    using assms(1) users
    by (simp add: tool_get_expenses_def get_expenses_try_def truthy_def parse_if_given_def
        start_after_end_def sel tot)
  from created queried show ?thesis
    by (simp add: row_def db1_def Let_def)
qed

theorem create_then_query_roundtrip_witness:
  "caller (Some 1) = Some 1 \<and> 1 \<in> set (users shared_db) \<and>
   filter (\<lambda>r. e_user_id r = 1 \<and> contains (lower (e_category r)) (lower ''Food''))
     (expenses shared_db) = [] \<and>
   tool_get_expenses no_dates (Some 1) (Some ''Food'') None None None
       (snd (tool_create_expenses 7 (Some 1) 50 ''Food'' (Some ''Groceries'') shared_db)) =
     (Inr (Reply_listing (Some ''Food'')
        [\<lparr>e_id = 3, e_amount = 50, e_description = ''Groceries'', e_category = ''Food'',
          e_date = \<lparr>wall = 7, utcoffset = None\<rparr>, e_user_id = 1\<rparr>] 50),
      shared_db\<lparr>expenses := [flight, taxi,
        \<lparr>e_id = 3, e_amount = 50, e_description = ''Groceries'', e_category = ''Food'',
          e_date = \<lparr>wall = 7, utcoffset = None\<rparr>, e_user_id = 1\<rparr>], next_id := 4\<rparr>)"
proof -
  have u: "1 \<in> set (users shared_db)"
    by (simp add: shared_db_fields)
  have none: "\<forall>r \<in> set (expenses shared_db).
      e_user_id r = 1 \<longrightarrow> \<not> contains (lower (e_category r)) (lower ''Food'')"
    by (simp add: shared_db_fields flight_fields taxi_fields lower_Travel lower_Food)
  have n: "next_id shared_db = 3"
    by (simp add: shared_db_def)
  have none': "filter (\<lambda>r. e_user_id r = 1 \<and> contains (lower (e_category r)) (lower ''Food''))
     (expenses shared_db) = []"
    by (simp add: shared_db_fields flight_fields taxi_fields lower_Travel lower_Food)
  from create_then_query_roundtrip [OF caller_Some1 u none, of 7 no_dates] u none'
  show ?thesis
    by (simp add: Let_def caller_Some1 shared_db_fields n)
qed

section \<open>Exact selectors of the bulk operations\<close>

lemma category_filter_contains:
  assumes "if backslash_escape db then CHR 0x5C \<notin> set sel else True"
    and "contains (lower (e_category r)) (lower sel)"
  shows "category_filter (like_escape db) (Some sel) r"
  using ilike_infix [OF assms] by (simp add: category_filter_def)

lemma similar_category_contains:
  assumes "lower (e_category r) = lower sel \<or> contains (e_category r) sel"
  shows "contains (lower (e_category r)) (lower sel)"
  using assms contains_self [of "lower sel"] contains_lower by auto

lemma tool_get_expenses_by_category:
  assumes "caller ctx = Some u" and "u \<in> set (users db)"
    and "r \<in> set (expenses db)" and "e_user_id r = u"
    and "category_filter (like_escape db) (Some sel) r"
  shows "\<exists>found tot.
     tool_get_expenses parse ctx (Some sel) None None None db =
       (Inr (Reply_listing (Some sel) found tot), db) \<and> r \<in> set found"
proof -
  let ?found = "select_expenses db u (Some sel) None None None"
  have r: "r \<in> set ?found"
    using assms(3-5) by (simp add: select_expenses_def description_filter_def date_filter_def)
  then have ne: "?found \<noteq> []" by auto
  have "tool_get_expenses parse ctx (Some sel) None None None db =
      (Inr (Reply_listing (Some sel) ?found (total_amount ?found)), db)"
    using assms(1,2) ne
    by (simp add: tool_get_expenses_def get_expenses_try_def truthy_def parse_if_given_def
        start_after_end_def Let_def)
  with r show ?thesis by blast
qed

lemma untouched_by_update:
  assumes "r \<in> set (expenses db)" and "e_category r \<noteq> sel"
  shows "r \<in> set (expenses (snd (update_expenses_by_category db sel upd u)))"
proof -
  have "\<not> in_category sel u r"
    using assms(2) by (simp add: in_category_def)
  with assms(1) have "r \<in> set (map (\<lambda>e. if in_category sel u e then commit_update upd e else e)
      (expenses db))"
    by (force simp: image_iff)
  with assms(1) show ?thesis
    by (simp add: update_expenses_by_category_def Let_def split: sum.splits)
qed

lemma no_exact_match:
  assumes "\<forall>x \<in> set (expenses db). \<not> in_category sel u x"
  shows "filter (in_category sel u) (expenses db) = []"
  using assms by (simp add: filter_empty_conv)

text \<open>Bulk delete removes exactly the caller's records stored under the selector.\<close>

lemma delete_controller_db:
  "snd (delete_expenses_by_category db sel u) =
     db\<lparr>expenses := filter (\<lambda>e. \<not> in_category sel u e) (expenses db)\<rparr>"
proof (cases "filter (in_category sel u) (expenses db) = []")
  case True
  then have "filter (\<lambda>e. \<not> in_category sel u e) (expenses db) = expenses db"
    by (simp add: filter_empty_conv)
  with True show ?thesis
    by (simp add: delete_expenses_by_category_def)
next
  case False
  then show ?thesis
    by (simp add: delete_expenses_by_category_def Let_def del: str_nat.simps)
qed

lemma tool_delete_expenses_db:
  assumes "caller ctx = Some u" and "u \<in> set (users db)"
  shows "snd (tool_delete_expenses ctx sel db) =
     db\<lparr>expenses := filter (\<lambda>e. \<not> in_category sel u e) (expenses db)\<rparr>"
proof -
  have "snd (delete_expenses_try u sel db) = snd (delete_expenses_by_category db sel u)"
    using assms(2) by (simp add: delete_expenses_try_def split: prod.splits sum.splits)
  moreover have "snd (tool_delete_expenses ctx sel db) = snd (delete_expenses_try u sel db)"
    using assms(1) by (simp add: tool_delete_expenses_def split: prod.splits sum.splits)
  ultimately show ?thesis
    by (simp add: delete_controller_db)
qed

text \<open>
  Bulk update with description, amount and date supplied rewrites exactly the caller's
  records stored under the selector.
\<close>

lemma from_orm_full:
  "from_orm (updated_object (ExpenseUpdate (Some d) (Some a) (Some c) (Some t)) e) =
     Inr \<lparr>e_id = e_id e, e_amount = a, e_description = d, e_category = c, e_date = t,
          e_user_id = e_user_id e\<rparr>"
  by (simp add: updated_object_ExpenseUpdate from_orm_def)

lemma update_loop_full:
  "\<exists>vs. update_loop (ExpenseUpdate (Some d) (Some a) (Some c) (Some t)) es = Inr vs"
  by (induction es) (auto simp: from_orm_full)

lemma commit_update_full:
  assumes "e_category e = c"
  shows "commit_update (ExpenseUpdate (Some d) (Some a) (Some c) (Some t)) e =
     e\<lparr>e_description := d, e_amount := a, e_date := t\<lparr>utcoffset := None\<rparr>\<rparr>"
  using assms by (cases e) (simp add: commit_update_def from_orm_full store_row_def)

lemma update_controller_full_db:
  "snd (update_expenses_by_category db sel (ExpenseUpdate (Some d) (Some a) (Some sel) (Some t)) u) =
     db\<lparr>expenses := map (\<lambda>e. if in_category sel u e
                                then e\<lparr>e_description := d, e_amount := a,
                                       e_date := t\<lparr>utcoffset := None\<rparr>\<rparr>
                                else e) (expenses db)\<rparr>"
proof -
  let ?upd = "ExpenseUpdate (Some d) (Some a) (Some sel) (Some t)"
  let ?new = "\<lambda>e. e\<lparr>e_description := d, e_amount := a, e_date := t\<lparr>utcoffset := None\<rparr>\<rparr>"
  have same: "(if in_category sel u e then commit_update ?upd e else e) =
      (if in_category sel u e then ?new e else e)" for e
    by (simp add: commit_update_full in_category_def)
  show ?thesis
  proof (cases "filter (in_category sel u) (expenses db) = []")
    case True
    then have "\<forall>e \<in> set (expenses db). \<not> in_category sel u e"
      by (simp add: filter_empty_conv)
    then have "map (\<lambda>e. if in_category sel u e then ?new e else e) (expenses db) = expenses db"
      by (simp add: map_idI)
    with True show ?thesis
      by (simp add: update_expenses_by_category_def)
  next
    case False
    obtain vs where "update_loop ?upd (filter (in_category sel u) (expenses db)) = Inr vs"
      using update_loop_full by blast
    with False show ?thesis
      by (simp add: update_expenses_by_category_def same)
  qed
qed

lemma tool_update_expenses_snd:
  assumes "caller ctx = Some u"
  shows "snd (tool_update_expenses parse ctx sel nd na nt db) =
     snd (update_expenses_try parse u sel nd na nt db)"
  using assms by (simp add: tool_update_expenses_def split: prod.splits sum.splits)

lemma tool_update_expenses_full_db:
  assumes "caller ctx = Some u" and "u \<in> set (users db)"
    and "parse t = Some p" and "t \<noteq> []" and "year_1000 \<le> wall p"
  shows "snd (tool_update_expenses parse ctx sel (Some d) (Some a) (Some t) db) =
     db\<lparr>expenses := map (\<lambda>e. if in_category sel u e
                                then e\<lparr>e_description := d, e_amount := a,
                                       e_date := \<lparr>wall = wall p, utcoffset = None\<rparr>\<rparr>
                                else e) (expenses db)\<rparr>"
proof -
  have f: "formatted_date parse (Some t) = Inr (Some (p\<lparr>utcoffset := Some 0\<rparr>))"
    using assms(3-5) by (simp add: formatted_date_def truthy_def text_of_def strftime_Z_def)
  have "snd (update_expenses_try parse u sel (Some d) (Some a) (Some t) db) =
      snd (update_expenses_by_category db sel
             (ExpenseUpdate (Some d) (Some a) (Some sel) (Some (p\<lparr>utcoffset := Some 0\<rparr>))) u)"
    using assms(2-4)
    by (simp add: update_expenses_try_def f truthy_def text_of_def split: prod.splits sum.splits)
  moreover have "(p\<lparr>utcoffset := Some 0\<rparr>)\<lparr>utcoffset := None\<rparr> = \<lparr>wall = wall p, utcoffset = None\<rparr>"
    by (cases p) simp
  ultimately show ?thesis
    by (simp add: tool_update_expenses_snd [OF assms(1)] update_controller_full_db)
qed

lemma tool_update_expenses_untouched:
  assumes "caller ctx = Some u" and "r \<in> set (expenses db)" and "e_category r \<noteq> sel"
  shows "r \<in> set (expenses (snd (tool_update_expenses parse ctx sel nd na nt db)))"
proof -
  from update_expenses_try_cases [of parse u sel nd na nt db]
  have "snd (update_expenses_try parse u sel nd na nt db) = db \<or>
      (\<exists>upd. snd (update_expenses_try parse u sel nd na nt db) =
         snd (update_expenses_by_category db sel upd u))"
    by (metis snd_conv)
  with assms(2) untouched_by_update [OF assms(2,3)] show ?thesis
    by (auto simp: tool_update_expenses_snd [OF assms(1)])
qed

lemma tool_update_expenses_no_match:
  assumes "caller ctx = Some u" and "filter (in_category sel u) (expenses db) = []"
  shows "snd (tool_update_expenses parse ctx sel nd na nt db) = db"
proof -
  have none: "update_expenses_by_category db sel upd u =
      (Inl (HTTPException 404 (''No expenses found in category '' @ quote sel @ ''.'')), db)" for upd
    by (simp add: update_expenses_by_category_def assms(2))
  from update_expenses_try_cases [of parse u sel nd na nt db] none
  have "snd (update_expenses_try parse u sel nd na nt db) = db"
    by auto
  then show ?thesis
    by (simp add: tool_update_expenses_snd [OF assms(1)])
qed


lemma str_nat_1: "str_nat (Suc 0) = ''1''"
  by code_simp

lemma lower_travel: "lower ''travel'' = ''travel''"
  by code_simp

lemma lower_upper_AB: "lower upper_AB = lower_ab"
  by code_simp

lemma lower_lower_ab: "lower lower_ab = lower_ab"
  by code_simp

lemma ilike_escaped: "\<not> ilike (Some (CHR 0x5C)) upper_AB (''%'' @ lower_ab @ ''%'')"
  by code_simp

lemma two_db_fields:
  "expenses two_db = [flight, commute]" "users two_db = [1]" "like_escape two_db = None"
  "\<not> backslash_escape two_db"
  by (simp_all add: two_db_def like_escape_def)

lemma commute_fields:
  "e_user_id commute = 1" "e_category commute = ''travel''"
  by (simp_all add: commute_def)

lemma escaping_db_fields:
  "expenses escaping_db = [voucher]" "users escaping_db = [1]"
  "like_escape escaping_db = Some (CHR 0x5C)"
  by (simp_all add: escaping_db_def like_escape_def)

lemma voucher_fields:
  "e_user_id voucher = 1" "e_category voucher = upper_AB"
  by (simp_all add: voucher_def)

text \<open>
  C10 as stated fails in two ways. User 1 has the records \<open>Travel\<close> and \<open>travel\<close>: the
  first differs from the selector \<open>travel\<close> only in letter case, yet bulk delete for
  \<open>travel\<close> finds a record, reports a deletion and changes the table. And where \<open>LIKE\<close>
  escapes with the backslash, a record whose category differs from the selector only in
  letter case, both holding a backslash, is not returned by the query.
\<close>

theorem similar_category_counterexample:
  "lower (e_category flight) = lower ''travel'' \<and> e_category flight \<noteq> ''travel'' \<and>
   tool_delete_expenses (Some 1) ''travel'' two_db =
     (Inr (Status_success (''Deleted 1 expenses in category '' @ quote ''travel'' @ ''.'') ()),
      two_db\<lparr>expenses := [flight]\<rparr>) \<and>
   lower (e_category voucher) = lower lower_ab \<and> e_category voucher \<noteq> lower_ab \<and>
   tool_get_expenses no_dates (Some 1) (Some lower_ab) None None None escaping_db =
     (Inr (Reply_text ''No expenses found with the specified criteria.''), escaping_db)"
proof -
  have 1: "lower (e_category flight) = lower ''travel'' \<and> e_category flight \<noteq> ''travel''"
    by (simp add: flight_fields lower_Travel lower_travel)
  have 2: "tool_delete_expenses (Some 1) ''travel'' two_db =
     (Inr (Status_success (''Deleted 1 expenses in category '' @ quote ''travel'' @ ''.'') ()),
      two_db\<lparr>expenses := [flight]\<rparr>)"
    by (simp add: tool_delete_expenses_def delete_expenses_try_def
        delete_expenses_by_category_def caller_Some1 two_db_fields in_category_def
        flight_fields commute_fields str_nat_1 del: str_nat.simps)
  have 3: "lower (e_category voucher) = lower lower_ab \<and> e_category voucher \<noteq> lower_ab"
    by (simp add: voucher_fields lower_upper_AB lower_lower_ab) (simp add: upper_AB_def lower_ab_def)
  have ne: "lower_ab \<noteq> []"
    by (simp add: lower_ab_def)
  have 4: "tool_get_expenses no_dates (Some 1) (Some lower_ab) None None None escaping_db =
     (Inr (Reply_text ''No expenses found with the specified criteria.''), escaping_db)"
    using ilike_escaped ne
    by (simp add: tool_get_expenses_def get_expenses_try_def caller_Some1 truthy_def
        parse_if_given_def start_after_end_def select_expenses_def category_filter_def
        escaping_db_fields voucher_fields)
  from 1 2 3 4 show ?thesis by simp
qed

text \<open>
  C10, amended. For a known caller \<open>u\<close>: bulk delete removes exactly the records of
  \<open>u\<close> stored under the selector, and a bulk update that supplies description, amount
  and a date that parses (year 1000 or later) rewrites exactly those records. A record of
  \<open>u\<close> whose category is not the selector but equals it up to letter case, or contains
  it, is returned by the query for the selector (the selector free of the backslash where
  the dialect escapes with it) and is left as it is by bulk delete and by every bulk
  update. When \<open>u\<close> has no record stored under exactly the selector, the controllers
  report that no expenses were found in the category, and both controllers and both
  tools leave the database as it was.
\<close>

theorem bulk_selectors_are_exact:
  assumes "caller ctx = Some u" and "u \<in> set (users db)"
  shows "snd (tool_delete_expenses ctx sel db) =
           db\<lparr>expenses := filter (\<lambda>e. \<not> in_category sel u e) (expenses db)\<rparr> \<and>
         (parse t = Some p \<and> t \<noteq> [] \<and> year_1000 \<le> wall p \<longrightarrow>
            snd (tool_update_expenses parse ctx sel (Some d) (Some a) (Some t) db) =
              db\<lparr>expenses := map (\<lambda>e. if in_category sel u e
                                         then e\<lparr>e_description := d, e_amount := a,
                                                e_date := \<lparr>wall = wall p, utcoffset = None\<rparr>\<rparr>
                                         else e) (expenses db)\<rparr>) \<and>
         (r \<in> set (expenses db) \<and> e_user_id r = u \<and> e_category r \<noteq> sel \<and>
          (lower (e_category r) = lower sel \<or> contains (e_category r) sel) \<and>
          (if backslash_escape db then CHR 0x5C \<notin> set sel else True) \<longrightarrow>
            (\<exists>found tot.
               tool_get_expenses parse ctx (Some sel) None None None db =
                 (Inr (Reply_listing (Some sel) found tot), db) \<and> r \<in> set found) \<and>
            r \<in> set (expenses (snd (tool_delete_expenses ctx sel db))) \<and>
            r \<in> set (expenses (snd (tool_update_expenses parse ctx sel nd na nt db)))) \<and>
         ((\<forall>x \<in> set (expenses db). \<not> in_category sel u x) \<longrightarrow>
            update_expenses_by_category db sel upd u =
              (Inl (HTTPException 404 (''No expenses found in category '' @ quote sel @ ''.'')), db) \<and>
            delete_expenses_by_category db sel u =
              (Inl (HTTPException 404 (''No expenses found in category '' @ quote sel @ ''.'')), db) \<and>
            snd (tool_update_expenses parse ctx sel nd na nt db) = db \<and>
            snd (tool_delete_expenses ctx sel db) = db)"
proof (intro conjI impI)
  show del: "snd (tool_delete_expenses ctx sel db) =
      db\<lparr>expenses := filter (\<lambda>e. \<not> in_category sel u e) (expenses db)\<rparr>"
    by (rule tool_delete_expenses_db [OF assms])
  {
    assume "parse t = Some p \<and> t \<noteq> [] \<and> year_1000 \<le> wall p"
    then show "snd (tool_update_expenses parse ctx sel (Some d) (Some a) (Some t) db) =
        db\<lparr>expenses := map (\<lambda>e. if in_category sel u e
                                   then e\<lparr>e_description := d, e_amount := a,
                                          e_date := \<lparr>wall = wall p, utcoffset = None\<rparr>\<rparr>
                                   else e) (expenses db)\<rparr>"
      using tool_update_expenses_full_db [OF assms, of parse t p sel d a] by simp
  }
  {
    assume r: "r \<in> set (expenses db) \<and> e_user_id r = u \<and> e_category r \<noteq> sel \<and>
        (lower (e_category r) = lower sel \<or> contains (e_category r) sel) \<and>
        (if backslash_escape db then CHR 0x5C \<notin> set sel else True)"
    then have "category_filter (like_escape db) (Some sel) r"
      by (intro category_filter_contains similar_category_contains) simp_all
    with r show "\<exists>found tot.
        tool_get_expenses parse ctx (Some sel) None None None db =
          (Inr (Reply_listing (Some sel) found tot), db) \<and> r \<in> set found"
      by (intro tool_get_expenses_by_category [OF assms]) simp_all
    from r show "r \<in> set (expenses (snd (tool_delete_expenses ctx sel db)))"
      by (simp add: del in_category_def)
    from r show "r \<in> set (expenses (snd (tool_update_expenses parse ctx sel nd na nt db)))"
      by (intro tool_update_expenses_untouched [OF assms(1)]) simp_all
  }
  {
    assume "\<forall>x \<in> set (expenses db). \<not> in_category sel u x"
    then have none: "filter (in_category sel u) (expenses db) = []"
      by (rule no_exact_match)
    show "update_expenses_by_category db sel upd u =
        (Inl (HTTPException 404 (''No expenses found in category '' @ quote sel @ ''.'')), db)"
      by (simp add: update_expenses_by_category_def none)
    show "delete_expenses_by_category db sel u =
        (Inl (HTTPException 404 (''No expenses found in category '' @ quote sel @ ''.'')), db)"
      by (simp add: delete_expenses_by_category_def none)
    show "snd (tool_update_expenses parse ctx sel nd na nt db) = db"
      by (rule tool_update_expenses_no_match [OF assms(1) none])
    from none have "filter (\<lambda>e. \<not> in_category sel u e) (expenses db) = expenses db"
      by (simp add: filter_empty_conv)
    then show "snd (tool_delete_expenses ctx sel db) = db"
      by (simp add: del)
  }
qed


theorem bulk_selectors_are_exact_witness:
  "caller (Some 1) = Some 1 \<and> 1 \<in> set (users two_db) \<and>
   new_year ''1 January 2024'' = Some \<lparr>wall = 63839664000000000, utcoffset = None\<rparr> \<and>
   year_1000 \<le> 63839664000000000 \<and>
   flight \<in> set (expenses two_db) \<and> e_user_id flight = 1 \<and>
   e_category flight \<noteq> ''travel'' \<and> lower (e_category flight) = lower ''travel'' \<and>
   snd (tool_delete_expenses (Some 1) ''travel'' two_db) = two_db\<lparr>expenses := [flight]\<rparr> \<and>
   snd (tool_update_expenses new_year (Some 1) ''travel'' (Some ''Train'') (Some 80)
          (Some ''1 January 2024'') two_db) =
     two_db\<lparr>expenses :=
       [flight,
        commute\<lparr>e_description := ''Train'', e_amount := 80,
                e_date := \<lparr>wall = 63839664000000000, utcoffset = None\<rparr>\<rparr>]\<rparr> \<and>
   (\<exists>found tot.
      tool_get_expenses new_year (Some 1) (Some ''travel'') None None None two_db =
        (Inr (Reply_listing (Some ''travel'') found tot), two_db) \<and> flight \<in> set found) \<and>
   filter (in_category ''travel'' 1) (expenses shared_db) = [] \<and>
   update_expenses_by_category shared_db ''travel''
       (ExpenseUpdate (Some ''Train'') (Some 80) (Some ''travel'') None) 1 =
     (Inl (HTTPException 404 (''No expenses found in category '' @ quote ''travel'' @ ''.'')),
      shared_db) \<and>
   delete_expenses_by_category shared_db ''travel'' 1 =
     (Inl (HTTPException 404 (''No expenses found in category '' @ quote ''travel'' @ ''.'')),
      shared_db) \<and>
   snd (tool_update_expenses no_dates (Some 1) ''travel'' None (Some 80) None shared_db) =
     shared_db \<and>
   snd (tool_delete_expenses (Some 1) ''travel'' shared_db) = shared_db"
proof -
  let ?p = "\<lparr>wall = 63839664000000000, utcoffset = None\<rparr>"
  have u2: "1 \<in> set (users two_db)"
    by (simp add: two_db_fields)
  have us: "1 \<in> set (users shared_db)"
    by (simp add: shared_db_fields)
  have parsed: "new_year ''1 January 2024'' = Some ?p"
    by (simp add: new_year_def)
  have late: "year_1000 \<le> 63839664000000000"
    by (simp add: year_1000_def)
  have m: "flight \<in> set (expenses two_db)"
    by (simp add: two_db_fields)
  have ne: "e_category flight \<noteq> ''travel''"
    by (simp add: flight_fields)
  have ci: "lower (e_category flight) = lower ''travel''"
    by (simp add: flight_fields lower_Travel lower_travel)
  have esc: "if backslash_escape two_db then CHR 0x5C \<notin> set ''travel'' else True"
    by simp
  have kept: "filter (\<lambda>e. \<not> in_category ''travel'' 1 e) (expenses two_db) = [flight]"
    by (simp add: two_db_fields in_category_def flight_fields commute_fields)
  have rewritten: "map (\<lambda>e. if in_category ''travel'' 1 e
                       then e\<lparr>e_description := ''Train'', e_amount := 80,
                              e_date := \<lparr>wall = wall ?p, utcoffset = None\<rparr>\<rparr>
                       else e) (expenses two_db) =
      [flight, commute\<lparr>e_description := ''Train'', e_amount := 80, e_date := ?p\<rparr>]"
    by (simp add: two_db_fields in_category_def flight_fields commute_fields)
  have none: "\<forall>x \<in> set (expenses shared_db). \<not> in_category ''travel'' 1 x"
    by (simp add: shared_db_fields in_category_def flight_fields taxi_fields)
  note two = bulk_selectors_are_exact [OF caller_Some1 u2, of "''travel''" new_year
      "''1 January 2024''" ?p "''Train''" 80 flight]
  note shared = bulk_selectors_are_exact [OF caller_Some1 us, of "''travel''" no_dates
      _ _ _ _ _ None "Some 80" None
      "ExpenseUpdate (Some ''Train'') (Some 80) (Some ''travel'') None"]
  have a: "snd (tool_delete_expenses (Some 1) ''travel'' two_db) = two_db\<lparr>expenses := [flight]\<rparr>"
    using two kept by simp
  have b: "snd (tool_update_expenses new_year (Some 1) ''travel'' (Some ''Train'') (Some 80)
          (Some ''1 January 2024'') two_db) =
     two_db\<lparr>expenses :=
       [flight, commute\<lparr>e_description := ''Train'', e_amount := 80, e_date := ?p\<rparr>]\<rparr>"
    using two parsed late rewritten by simp
  have c: "\<exists>found tot.
      tool_get_expenses new_year (Some 1) (Some ''travel'') None None None two_db =
        (Inr (Reply_listing (Some ''travel'') found tot), two_db) \<and> flight \<in> set found"
    using two m ne ci esc flight_fields(1) by blast
  have d: "update_expenses_by_category shared_db ''travel''
       (ExpenseUpdate (Some ''Train'') (Some 80) (Some ''travel'') None) 1 =
     (Inl (HTTPException 404 (''No expenses found in category '' @ quote ''travel'' @ ''.'')),
      shared_db) \<and>
   delete_expenses_by_category shared_db ''travel'' 1 =
     (Inl (HTTPException 404 (''No expenses found in category '' @ quote ''travel'' @ ''.'')),
      shared_db) \<and>
   snd (tool_update_expenses no_dates (Some 1) ''travel'' None (Some 80) None shared_db) =
     shared_db \<and>
   snd (tool_delete_expenses (Some 1) ''travel'' shared_db) = shared_db"
    using shared none by blast
  from a b c d u2 parsed late m ne ci no_exact_match [OF none] show ?thesis
    by (simp add: caller_Some1 flight_fields)
qed

end
